theory Spec2Isabelle
  imports Main
begin

section \<open>The Go library functions that gen.go calls\<close>

text \<open>
  A Go string is a sequence of bytes; it is modelled as \<open>string\<close> (a list of 8-bit
  characters). The functions of packages \<open>strings\<close> and \<open>strconv\<close> used by gen.go are
  written out below as the Go library defines them.
\<close>

subsection \<open>strings.HasPrefix, strings.HasSuffix, strings.Contains\<close>

definition strings_HasPrefix :: "string \<Rightarrow> string \<Rightarrow> bool" where
  "strings_HasPrefix s prefix = (take (length prefix) s = prefix)"

definition strings_HasSuffix :: "string \<Rightarrow> string \<Rightarrow> bool" where
  "strings_HasSuffix s suffix = (drop (length s - length suffix) s = suffix)"

fun strings_Contains :: "string \<Rightarrow> string \<Rightarrow> bool" where
  "strings_Contains [] substr = (substr = [])"
| "strings_Contains (c # cs) substr =
     (strings_HasPrefix (c # cs) substr \<or> strings_Contains cs substr)"

subsection \<open>strings.Split and strings.Join\<close>

text \<open>
  \<open>strings.Split(s, sep)\<close> for a non-empty separator: the pieces of \<open>s\<close> between the
  occurrences of \<open>sep\<close>, found from left to right without overlap. The result always has
  at least one piece. \<open>split_from sep acc s\<close> carries the bytes of the current piece,
  newest first. (gen.go only splits at \<open>"\n"\<close>; with an empty separator Go splits into
  UTF-8 sequences, which this definition does not model: it returns the whole string.)
\<close>

function split_from :: "string \<Rightarrow> string \<Rightarrow> string \<Rightarrow> string list" where
  "split_from sep acc [] = [rev acc]"
| "split_from sep acc (c # cs) =
     (if sep \<noteq> [] \<and> strings_HasPrefix (c # cs) sep
      then rev acc # split_from sep [] (drop (length sep) (c # cs))
      else split_from sep (c # acc) cs)"
  by pat_completeness auto
termination
  by (relation "measure (\<lambda>(sep, acc, s). length s)") auto

definition strings_Split :: "string \<Rightarrow> string \<Rightarrow> string list" where
  "strings_Split s sep = split_from sep [] s"

fun strings_Join :: "string list \<Rightarrow> string \<Rightarrow> string" where
  "strings_Join [] sep = []"
| "strings_Join [a] sep = a"
| "strings_Join (a # b # rest) sep = a @ sep @ strings_Join (b # rest) sep"

subsection \<open>strings.TrimSpace\<close>

text \<open>
  \<open>strings.TrimSpace\<close> removes the leading and the trailing runs of code points for which
  \<open>unicode.IsSpace\<close> holds: U+0009..U+000D, U+0020, U+0085, U+00A0, U+1680,
  U+2000..U+200A, U+2028, U+2029, U+202F, U+205F and U+3000. On the bytes of the string
  that is: remove, while there is one, a leading (then a trailing) UTF-8 encoding of one
  of these code points. A byte sequence that is not valid UTF-8 decodes to U+FFFD, which
  is no space, and stops the trimming.
\<close>

definition space_encodings :: "string list" where
  "space_encodings =
     [[CHR 0x09], [CHR 0x0A], [CHR 0x0B], [CHR 0x0C], [CHR 0x0D], [CHR 0x20],
      [CHR 0xC2, CHR 0x85], [CHR 0xC2, CHR 0xA0],
      [CHR 0xE1, CHR 0x9A, CHR 0x80],
      [CHR 0xE2, CHR 0x80, CHR 0x80], [CHR 0xE2, CHR 0x80, CHR 0x81],
      [CHR 0xE2, CHR 0x80, CHR 0x82], [CHR 0xE2, CHR 0x80, CHR 0x83],
      [CHR 0xE2, CHR 0x80, CHR 0x84], [CHR 0xE2, CHR 0x80, CHR 0x85],
      [CHR 0xE2, CHR 0x80, CHR 0x86], [CHR 0xE2, CHR 0x80, CHR 0x87],
      [CHR 0xE2, CHR 0x80, CHR 0x88], [CHR 0xE2, CHR 0x80, CHR 0x89],
      [CHR 0xE2, CHR 0x80, CHR 0x8A],
      [CHR 0xE2, CHR 0x80, CHR 0xA8], [CHR 0xE2, CHR 0x80, CHR 0xA9],
      [CHR 0xE2, CHR 0x80, CHR 0xAF], [CHR 0xE2, CHR 0x81, CHR 0x9F],
      [CHR 0xE3, CHR 0x80, CHR 0x80]]"

text \<open>The width in bytes of the leading (trailing) code point when it is a space, else 0.\<close>

definition leading_space :: "string \<Rightarrow> nat" where
  "leading_space s =
     (case find (strings_HasPrefix s) space_encodings of
        None \<Rightarrow> 0 | Some e \<Rightarrow> length e)"

definition trailing_space :: "string \<Rightarrow> nat" where
  "trailing_space s =
     (case find (strings_HasSuffix s) space_encodings of
        None \<Rightarrow> 0 | Some e \<Rightarrow> length e)"

function TrimLeftSpace :: "string \<Rightarrow> string" where
  "TrimLeftSpace s =
     (if s = [] \<or> leading_space s = 0 then s
      else TrimLeftSpace (drop (leading_space s) s))"
  by pat_completeness auto
termination
  by (relation "measure length") auto

function TrimRightSpace :: "string \<Rightarrow> string" where
  "TrimRightSpace s =
     (if s = [] \<or> trailing_space s = 0 then s
      else TrimRightSpace (take (length s - trailing_space s) s))"
  by pat_completeness auto
termination
  by (relation "measure length") auto

definition strings_TrimSpace :: "string \<Rightarrow> string" where
  "strings_TrimSpace s = TrimRightSpace (TrimLeftSpace s)"

subsection \<open>strings.NewReplacer and Replacer.Replace\<close>

text \<open>
  A replacer is the list of its (old, new) pairs in argument order. \<open>Replace\<close> makes one
  pass over the string: at each position, the first pair in argument order whose old
  string starts there is applied, the pass goes on behind the match, and what was
  written is not looked at again; where no pair matches, one byte is copied. (Every old
  string of gen.go's replacers is non-empty; a pair with an empty old string is skipped
  here.)
\<close>

type_synonym replacer = "(string \<times> string) list"

definition lookup_pair :: "replacer \<Rightarrow> string \<Rightarrow> (string \<times> string) option" where
  "lookup_pair r s = find (\<lambda>(old, new). old \<noteq> [] \<and> strings_HasPrefix s old) r"

function Replace :: "replacer \<Rightarrow> string \<Rightarrow> string" where
  "Replace r [] = []"
| "Replace r (c # cs) =
     (case lookup_pair r (c # cs) of
        None \<Rightarrow> c # Replace r cs
      | Some (old, new) \<Rightarrow> new @ Replace r (drop (length old) (c # cs)))"
  by pat_completeness auto
termination
  by (relation "measure (\<lambda>(r, s). length s)")
     (auto simp: lookup_pair_def find_Some_iff)

subsection \<open>strings.ToLower\<close>

text \<open>
  \<open>strings.ToLower\<close> lowers an ASCII-only string byte by byte and maps any other string
  through the Unicode case tables. The tables are not part of this program: the mapping
  of a string with a byte above 0x7F is the parameter \<open>unicode_lower\<close>.
\<close>

definition lower_byte :: "char \<Rightarrow> char" where
  "lower_byte c =
     (if 65 \<le> (of_char c :: nat) \<and> (of_char c :: nat) \<le> 90
      then char_of ((of_char c :: nat) + 32) else c)"

definition isASCII :: "string \<Rightarrow> bool" where
  "isASCII s = list_all (\<lambda>c. (of_char c :: nat) < 128) s"

definition strings_ToLower :: "(string \<Rightarrow> string) \<Rightarrow> string \<Rightarrow> string" where
  "strings_ToLower unicode_lower s =
     (if isASCII s then map lower_byte s else unicode_lower s)"

subsection \<open>strconv.Atoi\<close>

text \<open>
  \<open>strconv.Atoi(s)\<close> is \<open>ParseInt(s, 10, 0)\<close> converted to \<open>int\<close>; it returns a number
  and an error, and on an error the number is not always zero. \<open>int\<close> has \<open>IntSize\<close>
  bits; the model fixes the 64 bits of a 64-bit platform, where the conversion to
  \<open>int\<close> changes nothing. The unsigned accumulator of \<open>ParseUint\<close> is a \<open>uint64\<close>:
  its wrap-around is written out with \<open>mod 2 ^ 64\<close>.
\<close>

datatype num_error = ErrSyntax | ErrRange

definition IntSize :: nat where
  "IntSize = 64"

definition maxUint64 :: nat where
  "maxUint64 = 2 ^ 64 - 1"

definition is_digit :: "char \<Rightarrow> bool" where
  "is_digit c = (48 \<le> (of_char c :: nat) \<and> (of_char c :: nat) \<le> 57)"

definition digit_val :: "char \<Rightarrow> nat" where
  "digit_val c = of_char c - 48"

text \<open>
  The loop of \<open>ParseUint\<close> in base 10, from the accumulator \<open>n\<close> on: a byte that is no
  decimal digit is a syntax error with result 0; an overflow is a range error with
  result \<open>maxVal\<close>, returned at once, before the bytes behind it are looked at.
\<close>

fun ParseUint_loop :: "nat \<Rightarrow> nat \<Rightarrow> string \<Rightarrow> nat \<times> num_error option" where
  "ParseUint_loop maxVal n [] = (n, None)"
| "ParseUint_loop maxVal n (c # cs) =
     (if \<not> is_digit c then (0, Some ErrSyntax)
      else if n \<ge> maxUint64 div 10 + 1 then (maxVal, Some ErrRange)
      else let n10 = (n * 10) mod 2 ^ 64;
               n1 = (n10 + digit_val c) mod 2 ^ 64
           in if n1 < n10 \<or> n1 > maxVal then (maxVal, Some ErrRange)
              else ParseUint_loop maxVal n1 cs)"

definition ParseUint :: "string \<Rightarrow> nat \<Rightarrow> nat \<times> num_error option" where
  "ParseUint s bitSize =
     (if s = [] then (0, Some ErrSyntax)
      else let bitSize = (if bitSize = 0 then IntSize else bitSize)
           in ParseUint_loop (2 ^ bitSize - 1) 0 s)"

text \<open>The conversion \<open>int64(u)\<close> of a \<open>uint64\<close>, and the negation of an \<open>int64\<close>.\<close>

definition int64 :: "int \<Rightarrow> int" where
  "int64 u = (let m = u mod 2 ^ 64 in if m \<ge> 2 ^ 63 then m - 2 ^ 64 else m)"

definition ParseInt :: "string \<Rightarrow> nat \<Rightarrow> int \<times> num_error option" where
  "ParseInt s bitSize =
     (if s = [] then (0, Some ErrSyntax)
      else
        let neg = (hd s = CHR ''-'');
            s1 = (if hd s = CHR ''+'' \<or> hd s = CHR ''-'' then tl s else s);
            (un, err) = ParseUint s1 bitSize
        in if err \<noteq> None \<and> err \<noteq> Some ErrRange then (0, err)
           else
             let bitSize = (if bitSize = 0 then IntSize else bitSize);
                 cutoff = (2 :: nat) ^ (bitSize - 1)
             in if \<not> neg \<and> un \<ge> cutoff then (int64 (int cutoff - 1), Some ErrRange)
                else if neg \<and> un > cutoff then (int64 (- int64 (int cutoff)), Some ErrRange)
                else let n = int64 (int un)
                     in (if neg then int64 (- n) else n, None))"

definition strconv_Atoi :: "string \<Rightarrow> int \<times> num_error option" where
  "strconv_Atoi s = ParseInt s 0"


section \<open>The ICMP registry: types and \<open>icmpv4Parameters.escape\<close>\<close>

text \<open>
  The decoded document. Go's struct fields \<open>Title\<close>, \<open>Records\<close>, \<open>Value\<close> and \<open>Descr\<close>
  occur in several structs; a field of an inner or a later struct carries a prefix
  (\<open>rec_\<close>: a record of a sub-registry, \<open>reg_\<close>: a sub-registry).
\<close>

record icmp_record =
  rec_Value :: string
  rec_Descr :: string

record icmp_registry =
  reg_Title :: string
  reg_Records :: "icmp_record list"

record icmpv4Parameters =
  Title :: string
  Updated :: string
  Registries :: "icmp_registry list"

record canonICMPv4ParamRecord =
  OrigDescr :: string
  Descr :: string
  Value :: int

text \<open>The zero value of a \<open>canonICMPv4ParamRecord\<close>, which \<open>make\<close> fills the slice with.\<close>

definition zero_canonICMPv4ParamRecord :: canonICMPv4ParamRecord where
  "zero_canonICMPv4ParamRecord = \<lparr>OrigDescr = [], Descr = [], Value = 0\<rparr>"

text \<open>
  The first loop of \<open>escape\<close>: the index of the first sub-registry whose title contains
  \<open>"Type"\<close> or \<open>"type"\<close>, counted from \<open>i\<close>, and \<open>-1\<close> when there is none.
\<close>

fun find_type_registry :: "int \<Rightarrow> icmp_registry list \<Rightarrow> int" where
  "find_type_registry i [] = - 1"
| "find_type_registry i (r # rs) =
     (if strings_Contains (reg_Title r) ''Type'' \<or> strings_Contains (reg_Title r) ''type''
      then i else find_type_registry (i + 1) rs)"

definition icmp_sr :: replacer where
  "icmp_sr =
     [(''Messages'', []), (''Message'', []), (''ICMP'', []), (''+'', ''P''),
      (''-'', []), (''/'', []), (''.'', []), ('' '', [])]"

text \<open>The test that makes the second loop \<open>continue\<close>.\<close>

definition icmp_placeholder :: "string \<Rightarrow> bool" where
  "icmp_placeholder d =
     (strings_Contains d ''Reserved'' \<or> strings_Contains d ''Unassigned'' \<or>
      strings_Contains d ''Deprecated'' \<or> strings_Contains d ''Experiment'' \<or>
      strings_Contains d ''experiment'')"

text \<open>The description with its lines joined by a space and trimmed: \<open>s\<close> in the source.\<close>

definition icmp_orig_descr :: "string \<Rightarrow> string" where
  "icmp_orig_descr d =
     (let ss = strings_Split d ''\<newline>'';
          joined = (if length ss > 1 then strings_Join ss '' '' else ss ! 0)
      in strings_TrimSpace joined)"

text \<open>
  The second loop, from index \<open>i\<close> on, over the records still to visit: it writes
  \<open>prs[i]\<close> unless the record is a placeholder.
\<close>

fun icmp_loop ::
  "nat \<Rightarrow> icmp_record list \<Rightarrow> canonICMPv4ParamRecord list \<Rightarrow> canonICMPv4ParamRecord list"
where
  "icmp_loop i [] prs = prs"
| "icmp_loop i (pr # rest) prs =
     (if icmp_placeholder (rec_Descr pr) then icmp_loop (i + 1) rest prs
      else
        let s = icmp_orig_descr (rec_Descr pr)
        in icmp_loop (i + 1) rest
             (prs[i := \<lparr>OrigDescr = s, Descr = Replace icmp_sr s,
                        Value = fst (strconv_Atoi (rec_Value pr))\<rparr>]))"

definition icmp_escape :: "icmpv4Parameters \<Rightarrow> canonICMPv4ParamRecord list" where
  "icmp_escape icp =
     (let id = find_type_registry 0 (Registries icp)
      in if id < 0 then []
         else
           let records = reg_Records (Registries icp ! nat id)
           in icmp_loop 0 records (replicate (length records) zero_canonICMPv4ParamRecord))"

section \<open>The protocol registry: types and \<open>protocolNumbers.escape\<close>\<close>

text \<open>Prefixes: \<open>prec_\<close> a record of the registry, \<open>pn_\<close> the document, \<open>p\<close> the result.\<close>

record proto_record =
  prec_Value :: string
  prec_Name :: string
  prec_Descr :: string

record protocolNumbers =
  pn_Title :: string
  pn_Updated :: string
  pn_RegTitle :: string
  pn_Note :: string
  pn_Records :: "proto_record list"

record canonProtocolRecord =
  pOrigName :: string
  pName :: string
  pDescr :: string
  pValue :: int

definition zero_canonProtocolRecord :: canonProtocolRecord where
  "zero_canonProtocolRecord = \<lparr>pOrigName = [], pName = [], pDescr = [], pValue = 0\<rparr>"

definition proto_sr :: replacer where
  "proto_sr =
     [(''-in-'', ''in''), (''-within-'', ''within''), (''-over-'', ''over''), (''+'', ''P''),
      (''-'', []), (''/'', []), (''.'', []), ('' '', [])]"

text \<open>The \<open>switch\<close> on the name as decoded; \<open>s\<close> is the trimmed name.\<close>

definition proto_name :: "string \<Rightarrow> string" where
  "proto_name name =
     (let s = strings_TrimSpace name
      in if name = ''ISIS over IPv4'' then ''ISIS''
         else if name = ''manet'' then ''MANET''
         else Replace proto_sr s)"

definition proto_descr :: "string \<Rightarrow> string" where
  "proto_descr d =
     (let ss = map strings_TrimSpace (strings_Split d ''\<newline>'')
      in if length ss > 1 then strings_Join ss '' '' else ss ! 0)"

fun proto_loop ::
  "nat \<Rightarrow> proto_record list \<Rightarrow> canonProtocolRecord list \<Rightarrow> canonProtocolRecord list"
where
  "proto_loop i [] prs = prs"
| "proto_loop i (pr # rest) prs =
     proto_loop (i + 1) rest
       (prs[i := \<lparr>pOrigName = prec_Name pr, pName = proto_name (prec_Name pr),
                  pDescr = proto_descr (prec_Descr pr),
                  pValue = fst (strconv_Atoi (prec_Value pr))\<rparr>])"

definition proto_escape :: "protocolNumbers \<Rightarrow> canonProtocolRecord list" where
  "proto_escape pn =
     proto_loop 0 (pn_Records pn)
       (replicate (length (pn_Records pn)) zero_canonProtocolRecord)"


section \<open>Emission: \<open>parseICMPv4Parameters\<close> and \<open>parseProtocolNumbers\<close>\<close>

text \<open>
  What a writer receives is the sequence of the calls made on it, each with its format
  string and its arguments (a string for \<open>%s\<close>, \<open>%q\<close> and \<open>%v\<close>, an integer for
  \<open>%d\<close>). An \<open>error\<close> is the message it prints. The XML decoder is outside this
  program: it is the parameter \<open>decode\<close>, from the bytes read to an error or
  the decoded document.
\<close>

type_synonym error = string

datatype arg = S string | D int

datatype "write" = Fprintf string "arg list" | Fprintln "arg list" | Write string

definition header_comment :: "string \<Rightarrow> string \<Rightarrow> write" where
  "header_comment title updated =
     Fprintf ''// %s, Updated: %s\<newline>'' [S title, S updated]"

text \<open>The body of the first and of the second loop of \<open>parseICMPv4Parameters\<close>.\<close>

definition icmp_const :: "canonICMPv4ParamRecord \<Rightarrow> write list" where
  "icmp_const pr =
     (if Descr pr = [] then []
      else [Fprintf ''ICMPType%s ICMPType = %d'' [S (Descr pr), D (Value pr)],
            Fprintf ''// %s\<newline>'' [S (OrigDescr pr)]])"

definition icmp_entry :: "(string \<Rightarrow> string) \<Rightarrow> canonICMPv4ParamRecord \<Rightarrow> write list" where
  "icmp_entry unicode_lower pr =
     (if Descr pr = [] then []
      else [Fprintf ''%d: %q,\<newline>''
              [D (Value pr), S (strings_ToLower unicode_lower (OrigDescr pr))]])"

definition icmp_const_block :: "canonICMPv4ParamRecord list \<Rightarrow> write list" where
  "icmp_const_block prs =
     [Fprintf ''const (\<newline>'' []] @ concat (map icmp_const prs) @
     [Fprintf '')\<newline>\<newline>'' []]"

definition icmp_table ::
  "(string \<Rightarrow> string) \<Rightarrow> canonICMPv4ParamRecord list \<Rightarrow> write list" where
  "icmp_table unicode_lower prs =
     [Fprintf ''var icmpTypes = map[ICMPType]string{\<newline>'' []] @
     concat (map (icmp_entry unicode_lower) prs) @
     [Fprintf ''}\<newline>'' []]"

definition parseICMPv4Parameters ::
  "(string \<Rightarrow> string) \<Rightarrow> (string \<Rightarrow> error + icmpv4Parameters) \<Rightarrow>
   write list \<Rightarrow> string \<Rightarrow> write list \<times> error option" where
  "parseICMPv4Parameters unicode_lower decode w r =
     (case decode r of
        Inl err \<Rightarrow> (w, Some err)
      | Inr icp \<Rightarrow>
          let prs = icmp_escape icp
          in (w @ [header_comment (Title icp) (Updated icp)] @ icmp_const_block prs @
              [header_comment (Title icp) (Updated icp)] @ icmp_table unicode_lower prs,
              None))"

definition synthetic_IP :: canonProtocolRecord where
  "synthetic_IP =
     \<lparr>pOrigName = [], pName = ''IP'',
      pDescr = ''IPv4 encapsulation, pseudo protocol number'', pValue = 0\<rparr>"

definition proto_const :: "canonProtocolRecord \<Rightarrow> write list" where
  "proto_const pr =
     (if pName pr = [] then []
      else [Fprintf ''ianaProtocol%s = %d'' [S (pName pr), D (pValue pr)],
            Fprintf ''// %s\<newline>'' [S (if pDescr pr = [] then pOrigName pr else pDescr pr)]])"

definition proto_const_block :: "canonProtocolRecord list \<Rightarrow> write list" where
  "proto_const_block prs =
     [Fprintf ''const (\<newline>'' []] @ concat (map proto_const prs) @
     [Fprintf '')\<newline>'' []]"

definition parseProtocolNumbers ::
  "(string \<Rightarrow> error + protocolNumbers) \<Rightarrow>
   write list \<Rightarrow> string \<Rightarrow> write list \<times> error option" where
  "parseProtocolNumbers decode w r =
     (case decode r of
        Inl err \<Rightarrow> (w, Some err)
      | Inr pn \<Rightarrow>
          let prs = proto_escape pn;
              prs = [synthetic_IP] @ prs
          in (w @ [header_comment (pn_Title pn) (pn_Updated pn)] @ proto_const_block prs,
              None))"

section \<open>The driver: \<open>main\<close>\<close>

text \<open>
  The world \<open>main\<close> runs in: the answer of \<open>http.Get\<close> to each URL, the two XML
  decoders, \<open>format.Source\<close> on what the buffer holds, and the Unicode case mapping. A
  run ends with an exit status and with what standard output and standard error
  received.
\<close>

record response =
  StatusCode :: int
  Body :: string

record env =
  http_Get :: "string \<Rightarrow> error + response"
  decode_icmp :: "string \<Rightarrow> error + icmpv4Parameters"
  decode_proto :: "string \<Rightarrow> error + protocolNumbers"
  format_Source :: "write list \<Rightarrow> error + string"
  unicode_ToLower :: "string \<Rightarrow> string"

record process =
  exit_status :: int
  stdout :: "write list"
  stderr :: "write list"

type_synonym registry = "string \<times> (write list \<Rightarrow> string \<Rightarrow> write list \<times> error option)"

definition icmp_url :: string where
  "icmp_url = ''http://www.iana.org/assignments/icmp-parameters/icmp-parameters.xml''"

definition proto_url :: string where
  "proto_url = ''http://www.iana.org/assignments/protocol-numbers/protocol-numbers.xml''"

definition registries :: "env \<Rightarrow> registry list" where
  "registries e =
     [(icmp_url, parseICMPv4Parameters (unicode_ToLower e) (decode_icmp e)),
      (proto_url, parseProtocolNumbers (decode_proto e))]"

definition StatusOK :: int where
  "StatusOK = 200"

text \<open>
  The loop over the registries: \<open>Inl\<close> is \<open>os.Exit(1)\<close> with what was written to
  standard error, \<open>Inr\<close> the buffer after the last registry.
\<close>

fun main_loop :: "env \<Rightarrow> registry list \<Rightarrow> write list \<Rightarrow> write list + write list" where
  "main_loop e [] bb = Inr bb"
| "main_loop e ((url, parse) # rest) bb =
     (case http_Get e url of
        Inl err \<Rightarrow> Inl [Fprintln [S err]]
      | Inr resp \<Rightarrow>
          if StatusCode resp \<noteq> StatusOK
          then Inl [Fprintf ''got HTTP status code %v for %v\<newline>'' [D (StatusCode resp), S url]]
          else
            (case parse bb (Body resp) of
               (bb', Some err) \<Rightarrow> Inl [Fprintln [S err]]
             | (bb', None) \<Rightarrow> main_loop e rest (bb' @ [Fprintf ''\<newline>'' []])))"

definition main_header :: "write list" where
  "main_header =
     [Fprintf ''// go run gen.go\<newline>'' [],
      Fprintf ''// GENERATED BY THE COMMAND ABOVE; DO NOT EDIT\<newline>\<newline>'' [],
      Fprintf ''package ipv4\<newline>\<newline>'' []]"

definition main :: "env \<Rightarrow> process" where
  "main e =
     (case main_loop e (registries e) main_header of
        Inl errw \<Rightarrow> \<lparr>exit_status = 1, stdout = [], stderr = errw\<rparr>
      | Inr bb \<Rightarrow>
          (case format_Source e bb of
             Inl err \<Rightarrow> \<lparr>exit_status = 1, stdout = [], stderr = [Fprintln [S err]]\<rparr>
           | Inr b \<Rightarrow> \<lparr>exit_status = 0, stdout = [Write b], stderr = []\<rparr>))"

section \<open>The rewriting of an ICMP description as a sequence of passes\<close>



section \<open>The loops of the two \<open>escape\<close> methods, record by record\<close>

text \<open>
  Each pass of a loop of \<open>escape\<close> writes the entry of its own index only. What one
  record becomes is therefore a function of that record: the zero value when the ICMP
  loop skips it, the fields assigned in the body of the loop otherwise. The lemmas
  \<open>icmp_escape_map\<close> and \<open>proto_escape_map\<close> below prove that the loops compute these.
\<close>

definition icmp_canon :: "icmp_record \<Rightarrow> canonICMPv4ParamRecord" where
  "icmp_canon pr =
     (if icmp_placeholder (rec_Descr pr) then zero_canonICMPv4ParamRecord
      else \<lparr>OrigDescr = icmp_orig_descr (rec_Descr pr),
            Descr = Replace icmp_sr (icmp_orig_descr (rec_Descr pr)),
            Value = fst (strconv_Atoi (rec_Value pr))\<rparr>)"

definition proto_canon :: "proto_record \<Rightarrow> canonProtocolRecord" where
  "proto_canon pr =
     \<lparr>pOrigName = prec_Name pr, pName = proto_name (prec_Name pr),
      pDescr = proto_descr (prec_Descr pr),
      pValue = fst (strconv_Atoi (prec_Value pr))\<rparr>"

text \<open>The records of the sub-registry that \<open>escape\<close> selects; none when it selects none.\<close>

definition selected_records :: "icmpv4Parameters \<Rightarrow> icmp_record list" where
  "selected_records icp =
     (let id = find_type_registry 0 (Registries icp)
      in if id < 0 then [] else reg_Records (Registries icp ! nat id))"

text \<open>The test of the first loop on one title.\<close>

definition type_title :: "string \<Rightarrow> bool" where
  "type_title t = (strings_Contains t ''Type'' \<or> strings_Contains t ''type'')"

text \<open>The number that a string of decimal digits denotes.\<close>

definition decimal :: "string \<Rightarrow> nat" where
  "decimal ds = foldl (\<lambda>n c. n * 10 + digit_val c) 0 ds"

section \<open>The failures of a run\<close>

text \<open>
  The four ways a stage of \<open>main\<close> fails, read off the world: the fetch of a URL fails
  when \<open>http.Get\<close> returns an error or a status other than 200; the decoding fails when
  the decoder returns an error on the body fetched; the formatting fails when
  \<open>format.Source\<close> returns an error on the buffer that the loop has filled.
\<close>

definition fetch_fails :: "env \<Rightarrow> string \<Rightarrow> bool" where
  "fetch_fails e url =
     (case http_Get e url of Inl err \<Rightarrow> True | Inr resp \<Rightarrow> StatusCode resp \<noteq> StatusOK)"

definition decode_fails :: "(string \<Rightarrow> error + 'a) \<Rightarrow> env \<Rightarrow> string \<Rightarrow> bool" where
  "decode_fails decode e url =
     (case http_Get e url of Inl err \<Rightarrow> False | Inr resp \<Rightarrow> isl (decode (Body resp)))"

definition format_fails :: "env \<Rightarrow> bool" where
  "format_fails e =
     (case main_loop e (registries e) main_header of
        Inl errw \<Rightarrow> False | Inr bb \<Rightarrow> isl (format_Source e bb))"

section \<open>Example documents\<close>

definition example_icmp :: icmpv4Parameters where
  "example_icmp =
     \<lparr>Title = ''ICMP Parameters'', Updated = ''2013-04-19'',
      Registries =
        [\<lparr>reg_Title = ''Code Fields'',
          reg_Records = [\<lparr>rec_Value = ''0'', rec_Descr = ''Net Unreachable''\<rparr>]\<rparr>,
         \<lparr>reg_Title = ''ICMP Type Numbers'',
          reg_Records = [\<lparr>rec_Value = ''1'', rec_Descr = ''Unassigned''\<rparr>,
                         \<lparr>rec_Value = ''3'', rec_Descr = ''Destination Unreachable''\<rparr>]\<rparr>,
         \<lparr>reg_Title = ''Subtype'',
          reg_Records = [\<lparr>rec_Value = ''9'', rec_Descr = ''Other''\<rparr>]\<rparr>]\<rparr>"

definition example_proto :: protocolNumbers where
  "example_proto =
     \<lparr>pn_Title = ''Protocol Numbers'', pn_Updated = ''2013-02-17'',
      pn_RegTitle = ''Assigned Internet Protocol Numbers'', pn_Note = [],
      pn_Records =
        [\<lparr>prec_Value = ''-5'', prec_Name = ''A'', prec_Descr = []\<rparr>,
         \<lparr>prec_Value = ''99999999999999999999'', prec_Name = ''B'', prec_Descr = []\<rparr>,
         \<lparr>prec_Value = ''abc'', prec_Name = ''C'', prec_Descr = []\<rparr>,
         \<lparr>prec_Value = ''138'', prec_Name = '' manet '', prec_Descr = ''MANET Protocols''\<rparr>,
         \<lparr>prec_Value = ''138'', prec_Name = ''manet'', prec_Descr = ''MANET Protocols''\<rparr>,
         \<lparr>prec_Value = ''124'', prec_Name = ''ISIS over IPv4'', prec_Descr = []\<rparr>]\<rparr>"

definition example_tcp :: protocolNumbers where
  "example_tcp =
     \<lparr>pn_Title = ''Protocol Numbers'', pn_Updated = ''2013-02-17'',
      pn_RegTitle = ''Assigned Internet Protocol Numbers'', pn_Note = [],
      pn_Records = [\<lparr>prec_Value = ''6'', prec_Name = ''TCP'',
                     prec_Descr = ''Transmission Control''\<rparr>]\<rparr>"

definition example_dest :: icmpv4Parameters where
  "example_dest =
     \<lparr>Title = ''ICMP Parameters'', Updated = ''2013-04-19'',
      Registries =
        [\<lparr>reg_Title = ''ICMP Type Numbers'',
          reg_Records = [\<lparr>rec_Value = ''3'', rec_Descr = ''Destination Unreachable''\<rparr>]\<rparr>]\<rparr>"

definition example_codes :: icmpv4Parameters where
  "example_codes =
     \<lparr>Title = ''ICMP Parameters'', Updated = ''2013-04-19'',
      Registries =
        [\<lparr>reg_Title = ''Code Fields'',
          reg_Records = [\<lparr>rec_Value = ''0'', rec_Descr = ''Net Unreachable''\<rparr>]\<rparr>]\<rparr>"

text \<open>
  A world in which the ICMP registry is fetched and decoded and the fetch of the
  protocol registry is answered with status 404.
\<close>

definition example_env :: env where
  "example_env =
     \<lparr>http_Get = (\<lambda>url. if url = icmp_url then Inr \<lparr>StatusCode = 200, Body = ''<registry/>''\<rparr>
                        else Inr \<lparr>StatusCode = 404, Body = []\<rparr>),
      decode_icmp = (\<lambda>r. Inr example_icmp),
      decode_proto = (\<lambda>r. Inr example_proto),
      format_Source = (\<lambda>bb. Inr []),
      unicode_ToLower = id\<rparr>"

section \<open>Lemmas\<close>

subsection \<open>Indexing stays in range\<close>

text \<open>
  \<open>strings.Split\<close> returns at least one piece, so \<open>ss[0]\<close> exists; the index found by
  the scan, when it is not \<open>-1\<close>, is an index of \<open>Registries\<close>.
\<close>

lemma split_from_nonempty: "split_from sep acc s \<noteq> []"
  by (induction sep acc s rule: split_from.induct) simp_all

lemma strings_Split_nonempty: "0 < length (strings_Split s sep)"
  by (simp add: strings_Split_def split_from_nonempty)

lemma find_type_registry_range:
  "0 \<le> i \<Longrightarrow> find_type_registry i rs = - 1 \<or>
     (i \<le> find_type_registry i rs \<and> find_type_registry i rs < i + int (length rs))"
proof (induction rs arbitrary: i)
  case Nil
  then show ?case by simp
next
  case (Cons r rs)
  from Cons.prems have "0 \<le> i + 1" by simp
  from Cons.IH [OF this] Cons.prems show ?case by auto
qed

subsection \<open>The loops as maps\<close>

lemma icmp_loop_eq:
  "length prs = i + length recs \<Longrightarrow>
   icmp_loop i recs prs =
     take i prs @ map2 (\<lambda>pr old. if icmp_placeholder (rec_Descr pr) then old else icmp_canon pr)
                    recs (drop i prs)"
proof (induction recs arbitrary: i prs)
  case Nil
  then show ?case by simp
next
  case (Cons pr rest)
  from Cons.prems have len: "i < length prs" by simp
  then have d: "drop i prs = prs ! i # drop (Suc i) prs"
    by (simp add: Cons_nth_drop_Suc)
  show ?case
  proof (cases "icmp_placeholder (rec_Descr pr)")
    case True
    have "icmp_loop (Suc i) rest prs = take (Suc i) prs @
        map2 (\<lambda>pr old. if icmp_placeholder (rec_Descr pr) then old else icmp_canon pr)
          rest (drop (Suc i) prs)"
      using Cons.prems by (intro Cons.IH) simp
    with True len show ?thesis
      by (simp add: d take_Suc_conv_app_nth)
  next
    case False
    let ?v = "icmp_canon pr"
    have "icmp_loop (Suc i) rest (prs[i := ?v]) = take (Suc i) (prs[i := ?v]) @
        map2 (\<lambda>pr old. if icmp_placeholder (rec_Descr pr) then old else icmp_canon pr)
          rest (drop (Suc i) (prs[i := ?v]))"
      using Cons.prems by (intro Cons.IH) simp
    with False len show ?thesis
      by (simp add: d take_Suc_conv_app_nth icmp_canon_def Let_def)
  qed
qed

lemma map2_replicate_zero:
  "map2 (\<lambda>pr old. if icmp_placeholder (rec_Descr pr) then old else icmp_canon pr)
     recs (replicate (length recs) zero_canonICMPv4ParamRecord) = map icmp_canon recs"
  by (rule nth_equalityI) (simp_all add: icmp_canon_def)

lemma icmp_escape_map: "icmp_escape icp = map icmp_canon (selected_records icp)"
  by (simp add: icmp_escape_def selected_records_def Let_def icmp_loop_eq map2_replicate_zero)

lemma icmp_escape_nth:
  "j < length (selected_records icp) \<Longrightarrow>
   icmp_escape icp ! j = icmp_canon (selected_records icp ! j)"
  by (simp add: icmp_escape_map)

lemma proto_loop_eq:
  "length prs = i + length recs \<Longrightarrow>
   proto_loop i recs prs = take i prs @ map proto_canon recs"
proof (induction recs arbitrary: i prs)
  case Nil
  then show ?case by simp
next
  case (Cons pr rest)
  from Cons.prems have len: "i < length prs" by simp
  let ?v = "proto_canon pr"
  have "proto_loop (Suc i) rest (prs[i := ?v]) = take (Suc i) (prs[i := ?v]) @ map proto_canon rest"
    using Cons.prems by (intro Cons.IH) simp
  with len show ?case
    by (simp add: take_Suc_conv_app_nth proto_canon_def)
qed

lemma proto_escape_map: "proto_escape pn = map proto_canon (pn_Records pn)"
  by (simp add: proto_escape_def proto_loop_eq)

lemma proto_escape_nth:
  "i < length (pn_Records pn) \<Longrightarrow> proto_escape pn ! i = proto_canon (pn_Records pn ! i)"
  by (simp add: proto_escape_map)

subsection \<open>The scan for the sub-registry\<close>

lemma find_type_registry_none:
  "\<forall>r \<in> set rs. \<not> type_title (reg_Title r) \<Longrightarrow> find_type_registry i rs = - 1"
  by (induction rs arbitrary: i) (auto simp: type_title_def)

lemma find_type_registry_first:
  "k < length rs \<Longrightarrow> type_title (reg_Title (rs ! k)) \<Longrightarrow>
   \<forall>j<k. \<not> type_title (reg_Title (rs ! j)) \<Longrightarrow>
   find_type_registry i rs = i + int k"
proof (induction rs arbitrary: i k)
  case Nil
  then show ?case by simp
next
  case (Cons r rs)
  show ?case
  proof (cases k)
    case 0
    with Cons.prems show ?thesis by (simp add: type_title_def)
  next
    case (Suc k')
    with Cons.prems have "\<not> type_title (reg_Title r)" by auto
    moreover have "find_type_registry (i + 1) rs = i + 1 + int k'"
      using Cons.prems Suc by (intro Cons.IH) auto
    ultimately show ?thesis using Suc by (simp add: type_title_def)
  qed
qed

subsection \<open>What \<open>strconv.Atoi\<close> returns\<close>

lemma int64_id: "- (2 ^ 63) \<le> x \<Longrightarrow> x < 2 ^ 63 \<Longrightarrow> int64 x = x"
proof (cases "0 \<le> x")
  case True
  assume "x < 2 ^ 63"
  with True have "x mod 2 ^ 64 = x" by (intro mod_pos_pos_trivial) auto
  with True \<open>x < 2 ^ 63\<close> show ?thesis by (simp add: int64_def Let_def)
next
  case False
  assume lo: "- (2 ^ 63) \<le> x"
  have "x mod 2 ^ 64 = (x + 2 ^ 64) mod 2 ^ 64" by simp
  also have "\<dots> = x + 2 ^ 64" using lo False by (intro mod_pos_pos_trivial) auto
  finally show ?thesis using lo False by (simp add: int64_def Let_def)
qed

lemma ParseUint_loop_result:
  "ParseUint_loop m n s = (v, e) \<Longrightarrow>
     (e = Some ErrSyntax \<and> v = 0) \<or> (e = Some ErrRange \<and> v = m) \<or>
     (e = None \<and> (v \<le> m \<or> v = n))"
proof (induction s arbitrary: n)
  case Nil
  then show ?case by simp
next
  case (Cons c cs)
  then show ?case
    by (fastforce simp: Let_def split: if_splits)
qed

lemma foldl_decimal_ge: "n \<le> foldl (\<lambda>n c. n * 10 + digit_val c) n ds"
proof (induction ds arbitrary: n)
  case Nil
  show ?case by simp
next
  case (Cons c cs)
  have "n \<le> n * 10 + digit_val c" by simp
  also have "\<dots> \<le> foldl (\<lambda>n c. n * 10 + digit_val c) (n * 10 + digit_val c) cs"
    by (rule Cons.IH)
  finally show ?case by simp
qed

lemma digit_val_less: "is_digit c \<Longrightarrow> digit_val c < 10"
  by (auto simp: is_digit_def digit_val_def)

lemma ParseUint_loop_fits:
  "list_all is_digit ds \<Longrightarrow> foldl (\<lambda>n c. n * 10 + digit_val c) n ds \<le> m \<Longrightarrow>
   m < 2 ^ 64 \<Longrightarrow>
   ParseUint_loop m n ds = (foldl (\<lambda>n c. n * 10 + digit_val c) n ds, None)"
proof (induction ds arbitrary: n)
  case Nil
  show ?case by simp
next
  case (Cons c cs)
  let ?n1 = "n * 10 + digit_val c"
  have "?n1 \<le> foldl (\<lambda>n c. n * 10 + digit_val c) ?n1 cs" by (rule foldl_decimal_ge)
  with Cons.prems have le: "?n1 \<le> m" by simp
  with Cons.prems have lt: "?n1 < 2 ^ 64" by simp
  then have n10: "n * 10 < 2 ^ 64" by simp
  then have cut: "\<not> n \<ge> maxUint64 div 10 + 1" by (simp add: maxUint64_def)
  have IH: "ParseUint_loop m ?n1 cs = (foldl (\<lambda>n c. n * 10 + digit_val c) ?n1 cs, None)"
    using Cons.prems by (intro Cons.IH) simp_all
  from Cons.prems have "is_digit c" by simp
  with cut le lt n10 IH show ?case by (simp add: Let_def)
qed

lemma ParseUint_loop_overflow:
  "list_all is_digit ds \<Longrightarrow> foldl (\<lambda>n c. n * 10 + digit_val c) n ds > m \<Longrightarrow>
   n \<le> m \<Longrightarrow> m < 2 ^ 64 \<Longrightarrow>
   ParseUint_loop m n ds = (m, Some ErrRange)"
proof (induction ds arbitrary: n)
  case Nil
  then show ?case by simp
next
  case (Cons c cs)
  let ?n1 = "n * 10 + digit_val c"
  from Cons.prems have dig: "is_digit c" by simp
  then have d: "digit_val c < 10" by (rule digit_val_less)
  show ?case
  proof (cases "n \<ge> maxUint64 div 10 + 1")
    case True
    with dig show ?thesis by simp
  next
    case False
    then have n10: "n * 10 < 2 ^ 64" by (simp add: maxUint64_def)
    show ?thesis
    proof (cases "?n1 < 2 ^ 64")
      case wraps: False
      then have "(n * 10 + digit_val c) mod 2 ^ 64 = n * 10 + digit_val c - 2 ^ 64"
        using n10 d by (simp add: mod_if)
      with wraps n10 d have "(n * 10 + digit_val c) mod 2 ^ 64 < n * 10" by simp
      with dig False n10 show ?thesis by (simp add: Let_def)
    next
      case fits: True
      show ?thesis
      proof (cases "?n1 > m")
        case True
        with dig False n10 fits show ?thesis by (simp add: Let_def)
      next
        case le: False
        have "ParseUint_loop m ?n1 cs = (m, Some ErrRange)"
          using Cons.prems le by (intro Cons.IH) simp_all
        with dig False n10 fits le show ?thesis by (simp add: Let_def)
      qed
    qed
  qed
qed

lemma ParseInt_of_ParseUint:
  assumes "s \<noteq> []"
    and "s1 = (if hd s = CHR ''+'' \<or> hd s = CHR ''-'' then tl s else s)"
    and "ParseUint s1 0 = (un, err)"
  shows "ParseInt s 0 =
     (if err = Some ErrSyntax then (0, err)
      else if hd s \<noteq> CHR ''-'' \<and> un \<ge> 2 ^ 63 then (2 ^ 63 - 1, Some ErrRange)
      else if hd s = CHR ''-'' \<and> un > 2 ^ 63 then (- (2 ^ 63), Some ErrRange)
      else (if hd s = CHR ''-'' then int64 (- int64 (int un)) else int64 (int un), None))"
proof -
  have a: "int64 (int ((2::nat) ^ 63) - 1) = 2 ^ 63 - 1"
    by (simp add: int64_def Let_def)
  have b: "int64 (- int64 (int ((2::nat) ^ 63))) = - (2 ^ 63)"
    by (simp add: int64_def Let_def)
  have c: "(err \<noteq> None \<and> err \<noteq> Some ErrRange) = (err = Some ErrSyntax)"
    by (cases err) (auto intro: num_error.exhaust)
  show ?thesis
    using assms(1) assms(3) [unfolded assms(2)] a b c
    by (simp add: ParseInt_def Let_def IntSize_def)
qed

lemma ParseUint_result:
  assumes "ParseUint s 0 = (un, err)"
  shows "(err = Some ErrSyntax \<and> un = 0) \<or> (err = Some ErrRange \<and> un = 2 ^ 64 - 1) \<or>
         (err = None \<and> un < 2 ^ 64)"
proof (cases "s = []")
  case True
  with assms show ?thesis by (simp add: ParseUint_def)
next
  case False
  with assms have "ParseUint_loop (2 ^ 64 - 1) 0 s = (un, err)"
    by (simp add: ParseUint_def IntSize_def)
  from ParseUint_loop_result [OF this] show ?thesis by auto
qed

lemma Atoi_cases:
  assumes "strconv_Atoi s = (v, e)"
  shows "(e = Some ErrSyntax \<and> v = 0) \<or>
         (e = Some ErrRange \<and> v = (if strings_HasPrefix s ''-'' then - (2 ^ 63) else 2 ^ 63 - 1)) \<or>
         (e = None \<and> - (2 ^ 63) \<le> v \<and> v < 2 ^ 63 \<and> (\<not> strings_HasPrefix s ''-'' \<longrightarrow> 0 \<le> v))"
proof (cases "s = []")
  case True
  with assms show ?thesis by (simp add: strconv_Atoi_def ParseInt_def)
next
  case False
  then have hp: "strings_HasPrefix s ''-'' = (hd s = CHR ''-'')"
    by (cases s) (simp_all add: strings_HasPrefix_def)
  define s1 where "s1 = (if hd s = CHR ''+'' \<or> hd s = CHR ''-'' then tl s else s)"
  obtain un err where pu: "ParseUint s1 0 = (un, err)" by (cases "ParseUint s1 0")
  note pi = ParseInt_of_ParseUint [OF False s1_def pu]
  from ParseUint_result [OF pu] consider
      (syn) "err = Some ErrSyntax" "un = 0"
    | (rng) "err = Some ErrRange" "un = 2 ^ 64 - 1"
    | (ok) "err = None" "un < 2 ^ 64" by blast
  then show ?thesis
  proof cases
    case syn
    with pi assms show ?thesis by (simp add: strconv_Atoi_def)
  next
    case rng
    with pi assms hp show ?thesis by (auto simp: strconv_Atoi_def split: if_splits)
  next
    case ok
    show ?thesis
    proof (cases "hd s = CHR ''-''")
      case neg: True
      show ?thesis
      proof (cases "un > 2 ^ 63")
        case True
        with pi assms hp neg ok show ?thesis by (simp add: strconv_Atoi_def)
      next
        case False
        then have le: "un \<le> 2 ^ 63" by simp
        have "int64 (- int64 (int un)) = - int un"
        proof (cases "un = 2 ^ 63")
          case True
          then show ?thesis by (simp add: int64_def Let_def)
        next
          case False
          with le have "int un < 2 ^ 63" by simp
          then have "int64 (int un) = int un" by (intro int64_id) simp_all
          moreover have "int64 (- int un) = - int un"
            using \<open>int un < 2 ^ 63\<close> by (intro int64_id) simp_all
          ultimately show ?thesis by simp
        qed
        moreover have "- (2 ^ 63) \<le> - int un" using le by simp
        ultimately show ?thesis
          using pi assms hp neg ok False by (simp add: strconv_Atoi_def)
      qed
    next
      case pos: False
      show ?thesis
      proof (cases "un \<ge> 2 ^ 63")
        case True
        with pi assms hp pos ok show ?thesis by (simp add: strconv_Atoi_def)
      next
        case False
        then have "int un < 2 ^ 63" by simp
        then have "int64 (int un) = int un" by (intro int64_id) simp_all
        with pi assms hp pos ok False \<open>int un < 2 ^ 63\<close> show ?thesis
          by (simp add: strconv_Atoi_def)
      qed
    qed
  qed
qed

lemma is_digit_not_sign: "is_digit c \<Longrightarrow> c \<noteq> CHR ''-'' \<and> c \<noteq> CHR ''+''"
  by (auto simp: is_digit_def)

lemma ParseUint_digits:
  assumes "list_all is_digit ds" "ds \<noteq> []"
  shows "decimal ds < 2 ^ 64 \<Longrightarrow> ParseUint ds 0 = (decimal ds, None)"
    and "\<not> decimal ds < 2 ^ 64 \<Longrightarrow> ParseUint ds 0 = (2 ^ 64 - 1, Some ErrRange)"
proof -
  assume "decimal ds < 2 ^ 64"
  then have "foldl (\<lambda>n c. n * 10 + digit_val c) 0 ds \<le> 2 ^ 64 - 1"
    by (simp add: decimal_def)
  from ParseUint_loop_fits [OF assms(1) this] assms(2)
  show "ParseUint ds 0 = (decimal ds, None)"
    by (simp add: ParseUint_def IntSize_def decimal_def)
next
  assume "\<not> decimal ds < 2 ^ 64"
  then have "foldl (\<lambda>n c. n * 10 + digit_val c) 0 ds > 2 ^ 64 - 1"
    by (simp add: decimal_def)
  from ParseUint_loop_overflow [OF assms(1) this] assms(2)
  show "ParseUint ds 0 = (2 ^ 64 - 1, Some ErrRange)"
    by (simp add: ParseUint_def IntSize_def decimal_def)
qed

lemma Atoi_digits:
  assumes "list_all is_digit ds" "ds \<noteq> []"
  shows "strconv_Atoi ds =
     (if decimal ds < 2 ^ 63 then (int (decimal ds), None) else (2 ^ 63 - 1, Some ErrRange))"
proof -
  from assms have "is_digit (hd ds)" by (cases ds) simp_all
  then have sign: "hd ds \<noteq> CHR ''-''" "hd ds \<noteq> CHR ''+''"
    using is_digit_not_sign by blast+
  then have s1: "ds = (if hd ds = CHR ''+'' \<or> hd ds = CHR ''-'' then tl ds else ds)" by simp
  show ?thesis
  proof (cases "decimal ds < 2 ^ 64")
    case fits: True
    note pi = ParseInt_of_ParseUint [OF assms(2) s1 ParseUint_digits(1) [OF assms fits]]
    show ?thesis
    proof (cases "decimal ds < 2 ^ 63")
      case True
      then have "int (decimal ds) < 2 ^ 63" by simp
      then have "int64 (int (decimal ds)) = int (decimal ds)" by (intro int64_id) simp_all
      with pi True sign show ?thesis by (simp add: strconv_Atoi_def)
    next
      case False
      with pi sign show ?thesis by (simp add: strconv_Atoi_def)
    qed
  next
    case over: False
    note pi = ParseInt_of_ParseUint [OF assms(2) s1 ParseUint_digits(2) [OF assms over]]
    from over have "\<not> decimal ds < 2 ^ 63" by simp
    with pi sign show ?thesis by (simp add: strconv_Atoi_def)
  qed
qed

lemma Atoi_minus_digits:
  assumes "list_all is_digit ds" "ds \<noteq> []"
  shows "strconv_Atoi (CHR ''-'' # ds) =
     (if decimal ds \<le> 2 ^ 63 then (- int (decimal ds), None) else (- (2 ^ 63), Some ErrRange))"
proof -
  have s1: "ds = (if hd (CHR ''-'' # ds) = CHR ''+'' \<or> hd (CHR ''-'' # ds) = CHR ''-''
                  then tl (CHR ''-'' # ds) else CHR ''-'' # ds)" by simp
  have ne: "CHR ''-'' # ds \<noteq> []" by simp
  show ?thesis
  proof (cases "decimal ds < 2 ^ 64")
    case fits: True
    note pi = ParseInt_of_ParseUint [OF ne s1 ParseUint_digits(1) [OF assms fits]]
    show ?thesis
    proof (cases "decimal ds \<le> 2 ^ 63")
      case True
      have "int64 (- int64 (int (decimal ds))) = - int (decimal ds)"
      proof (cases "decimal ds = 2 ^ 63")
        case True
        then show ?thesis by (simp add: int64_def Let_def)
      next
        case False
        with True have lt: "int (decimal ds) < 2 ^ 63" by simp
        then have "int64 (int (decimal ds)) = int (decimal ds)" by (intro int64_id) simp_all
        moreover have "int64 (- int (decimal ds)) = - int (decimal ds)"
          using lt by (intro int64_id) simp_all
        ultimately show ?thesis by simp
      qed
      with pi True show ?thesis by (simp add: strconv_Atoi_def)
    next
      case False
      with pi show ?thesis by (simp add: strconv_Atoi_def)
    qed
  next
    case over: False
    note pi = ParseInt_of_ParseUint [OF ne s1 ParseUint_digits(2) [OF assms over]]
    from over have "\<not> decimal ds \<le> 2 ^ 63" by simp
    with pi show ?thesis by (simp add: strconv_Atoi_def)
  qed
qed

lemma Atoi_3: "strconv_Atoi ''3'' = (3, None)"
  using Atoi_digits [of "''3''"] by (simp add: decimal_def digit_val_def is_digit_def)

lemma Atoi_minus_5: "strconv_Atoi ''-5'' = (- 5, None)"
  using Atoi_minus_digits [of "''5''"] by (simp add: decimal_def digit_val_def is_digit_def)

lemma Atoi_abc: "strconv_Atoi ''abc'' = (0, Some ErrSyntax)"
  by (simp add: strconv_Atoi_def ParseInt_def ParseUint_def IntSize_def Let_def is_digit_def)

lemma Atoi_overflow:
  "strconv_Atoi ''99999999999999999999'' = (9223372036854775807, Some ErrRange)"
  using Atoi_digits [of "''99999999999999999999''"]
  by (simp add: decimal_def digit_val_def is_digit_def)

lemma Atoi_overflow_then_letters:
  "strconv_Atoi ''99999999999999999999x'' = (9223372036854775807, Some ErrRange)"
  by (simp add: strconv_Atoi_def ParseInt_def ParseUint_def IntSize_def Let_def is_digit_def
        digit_val_def maxUint64_def int64_def)

subsection \<open>Placeholders leave no trace in the output\<close>

lemma icmp_const_block_filter:
  "icmp_const_block (map icmp_canon recs) =
   icmp_const_block (map icmp_canon (filter (\<lambda>pr. \<not> icmp_placeholder (rec_Descr pr)) recs))"
  by (induction recs)
     (simp_all add: icmp_const_block_def icmp_const_def icmp_canon_def zero_canonICMPv4ParamRecord_def)

lemma icmp_table_filter:
  "icmp_table f (map icmp_canon recs) =
   icmp_table f (map icmp_canon (filter (\<lambda>pr. \<not> icmp_placeholder (rec_Descr pr)) recs))"
  by (induction recs)
     (simp_all add: icmp_table_def icmp_entry_def icmp_canon_def zero_canonICMPv4ParamRecord_def)

subsection \<open>The example documents, evaluated\<close>

lemma example_selected:
  "selected_records example_icmp =
     [\<lparr>rec_Value = ''1'', rec_Descr = ''Unassigned''\<rparr>,
      \<lparr>rec_Value = ''3'', rec_Descr = ''Destination Unreachable''\<rparr>]"
proof -
  have "\<not> strings_Contains ''Code Fields'' ''Type''" "\<not> strings_Contains ''Code Fields'' ''type''"
    "strings_Contains ''ICMP Type Numbers'' ''Type''"
    by code_simp+
  then show ?thesis by (simp add: selected_records_def example_icmp_def)
qed

lemma placeholder_Unassigned: "icmp_placeholder ''Unassigned''"
  by code_simp

lemma canon_Destination_Unreachable:
  "icmp_canon \<lparr>rec_Value = ''3'', rec_Descr = ''Destination Unreachable''\<rparr> =
     \<lparr>OrigDescr = ''Destination Unreachable'', Descr = ''DestinationUnreachable'', Value = 3\<rparr>"
proof -
  have "\<not> icmp_placeholder ''Destination Unreachable''" by code_simp
  moreover have "icmp_orig_descr ''Destination Unreachable'' = ''Destination Unreachable''"
    by code_simp
  moreover have "Replace icmp_sr ''Destination Unreachable'' = ''DestinationUnreachable''"
    by code_simp
  ultimately show ?thesis by (simp add: icmp_canon_def Atoi_3)
qed

lemma example_escape:
  "icmp_escape example_icmp =
     [zero_canonICMPv4ParamRecord,
      \<lparr>OrigDescr = ''Destination Unreachable'', Descr = ''DestinationUnreachable'', Value = 3\<rparr>]"
  using canon_Destination_Unreachable placeholder_Unassigned
  by (simp add: icmp_escape_map example_selected icmp_canon_def)

subsection \<open>Emission skips what a test excludes\<close>

lemma concat_map_filter_nonempty:
  "(\<And>x. \<not> P x \<Longrightarrow> g x = []) \<Longrightarrow> concat (map g xs) = concat (map g (filter P xs))"
  by (induction xs) simp_all

lemma ToLower_Destination_Unreachable:
  "strings_ToLower f ''Destination Unreachable'' = ''destination unreachable''"
  by code_simp

lemma Atoi_6: "strconv_Atoi ''6'' = (6, None)"
  using Atoi_digits [of "''6''"] by (simp add: decimal_def digit_val_def is_digit_def)

lemma example_tcp_escape:
  "proto_escape example_tcp =
     [\<lparr>pOrigName = ''TCP'', pName = ''TCP'', pDescr = ''Transmission Control'', pValue = 6\<rparr>]"
proof -
  have "proto_name ''TCP'' = ''TCP''" by code_simp
  moreover have "proto_descr ''Transmission Control'' = ''Transmission Control''" by code_simp
  ultimately show ?thesis
    by (simp add: proto_escape_map example_tcp_def proto_canon_def Atoi_6)
qed

lemma example_dest_selected:
  "selected_records example_dest =
     [\<lparr>rec_Value = ''3'', rec_Descr = ''Destination Unreachable''\<rparr>]"
proof -
  have "strings_Contains ''ICMP Type Numbers'' ''Type''" by code_simp
  then show ?thesis by (simp add: selected_records_def example_dest_def)
qed

lemma example_dest_escape:
  "icmp_escape example_dest =
     [\<lparr>OrigDescr = ''Destination Unreachable'', Descr = ''DestinationUnreachable'', Value = 3\<rparr>]"
  by (simp add: icmp_escape_map example_dest_selected canon_Destination_Unreachable)

subsection \<open>The driver\<close>

lemma parseICMPv4Parameters_error:
  "snd (parseICMPv4Parameters f decode w r) =
     (case decode r of Inl err \<Rightarrow> Some err | Inr icp \<Rightarrow> None)"
  by (simp add: parseICMPv4Parameters_def Let_def split: sum.splits)

lemma parseProtocolNumbers_error:
  "snd (parseProtocolNumbers decode w r) =
     (case decode r of Inl err \<Rightarrow> Some err | Inr pn \<Rightarrow> None)"
  by (simp add: parseProtocolNumbers_def Let_def split: sum.splits)

lemma main_loop_step:
  "main_loop e ((url, parse) # rest) bb =
     (case http_Get e url of
        Inl err \<Rightarrow> Inl [Fprintln [S err]]
      | Inr resp \<Rightarrow>
          if StatusCode resp \<noteq> StatusOK
          then Inl [Fprintf ''got HTTP status code %v for %v\<newline>'' [D (StatusCode resp), S url]]
          else
            (case snd (parse bb (Body resp)) of
               Some err \<Rightarrow> Inl [Fprintln [S err]]
             | None \<Rightarrow> main_loop e rest (fst (parse bb (Body resp)) @ [Fprintf ''\<newline>'' []])))"
  by (simp split: sum.splits prod.splits option.splits)

lemma main_loop_Inl_single: "main_loop e regs bb = Inl errw \<Longrightarrow> \<exists>report. errw = [report]"
proof (induction regs arbitrary: bb)
  case Nil
  then show ?case by simp
next
  case (Cons reg regs)
  obtain url parse where reg: "reg = (url, parse)" by (cases reg)
  from Cons.prems Cons.IH show ?case
    unfolding reg main_loop_step
    by (auto split: sum.splits if_splits option.splits)
qed

lemma main_loop_fails:
  assumes "fetch_fails e icmp_url \<or> decode_fails (decode_icmp e) e icmp_url \<or>
           fetch_fails e proto_url \<or> decode_fails (decode_proto e) e proto_url"
  shows "isl (main_loop e (registries e) main_header)"
  using assms
  unfolding registries_def main_loop_step parseICMPv4Parameters_error parseProtocolNumbers_error
    fetch_fails_def decode_fails_def
  by (auto split: sum.splits)

section \<open>The numeric value of a record\<close>

text \<open>
  Claim C1 says that the value string of every raw record parses as a non-negative
  integer and that the numeric value is zero whenever parsing fails, also for negative
  numerals and for numerals beyond the range of \<open>int\<close>. The code assigns what
  \<open>strconv.Atoi\<close> returns and drops the error, so the claim holds in this form only:
  the value of a protocol record, and of an ICMP record that is no placeholder, is the
  number returned by \<open>strconv.Atoi\<close> (a placeholder keeps the value 0); this number
  lies in the range of a 64-bit \<open>int\<close>; it is 0 when \<open>Atoi\<close> reports a syntax error; it
  is the nearest bound of the range, not 0, when \<open>Atoi\<close> reports a range error; it is
  negative only when the string starts with a minus sign; and a string of digits, with
  or without a leading minus sign, yields the number it denotes when that lies in the
  range. No value string makes the program fail: every function here is total.
\<close>

theorem record_value_from_Atoi:
  "(i < length (pn_Records pn) \<longrightarrow>
      pValue (proto_escape pn ! i) = fst (strconv_Atoi (prec_Value (pn_Records pn ! i)))) \<and>
   (j < length (selected_records icp) \<longrightarrow>
      Value (icmp_escape icp ! j) =
        (if icmp_placeholder (rec_Descr (selected_records icp ! j)) then 0
         else fst (strconv_Atoi (rec_Value (selected_records icp ! j))))) \<and>
   - (2 ^ 63) \<le> fst (strconv_Atoi s) \<and> fst (strconv_Atoi s) < 2 ^ 63 \<and>
   (snd (strconv_Atoi s1) = Some ErrSyntax \<longrightarrow> fst (strconv_Atoi s1) = 0) \<and>
   (snd (strconv_Atoi s2) = Some ErrRange \<longrightarrow>
      fst (strconv_Atoi s2) = (if strings_HasPrefix s2 ''-'' then - (2 ^ 63) else 2 ^ 63 - 1)) \<and>
   (\<not> strings_HasPrefix s3 ''-'' \<longrightarrow> 0 \<le> fst (strconv_Atoi s3)) \<and>
   (list_all is_digit ds \<and> ds \<noteq> [] \<longrightarrow>
      strconv_Atoi ds =
        (if decimal ds < 2 ^ 63 then (int (decimal ds), None) else (2 ^ 63 - 1, Some ErrRange)) \<and>
      strconv_Atoi (CHR ''-'' # ds) =
        (if decimal ds \<le> 2 ^ 63 then (- int (decimal ds), None)
         else (- (2 ^ 63), Some ErrRange)))"
proof -
  have atoi: "\<And>s. (snd (strconv_Atoi s) = Some ErrSyntax \<and> fst (strconv_Atoi s) = 0) \<or>
      (snd (strconv_Atoi s) = Some ErrRange \<and>
       fst (strconv_Atoi s) = (if strings_HasPrefix s ''-'' then - (2 ^ 63) else 2 ^ 63 - 1)) \<or>
      (snd (strconv_Atoi s) = None \<and> - (2 ^ 63) \<le> fst (strconv_Atoi s) \<and>
       fst (strconv_Atoi s) < 2 ^ 63 \<and> (\<not> strings_HasPrefix s ''-'' \<longrightarrow> 0 \<le> fst (strconv_Atoi s)))"
    by (rule Atoi_cases) simp
  have p: "i < length (pn_Records pn) \<longrightarrow>
      pValue (proto_escape pn ! i) = fst (strconv_Atoi (prec_Value (pn_Records pn ! i)))"
    by (simp add: proto_escape_nth proto_canon_def)
  have c: "j < length (selected_records icp) \<longrightarrow>
      Value (icmp_escape icp ! j) =
        (if icmp_placeholder (rec_Descr (selected_records icp ! j)) then 0
         else fst (strconv_Atoi (rec_Value (selected_records icp ! j))))"
    by (simp add: icmp_escape_nth icmp_canon_def zero_canonICMPv4ParamRecord_def)
  have lo: "- (2 ^ 63) \<le> fst (strconv_Atoi s)" using atoi [of s] by (auto split: if_splits)
  have hi: "fst (strconv_Atoi s) < 2 ^ 63" using atoi [of s] by (auto split: if_splits)
  have syn: "snd (strconv_Atoi s1) = Some ErrSyntax \<longrightarrow> fst (strconv_Atoi s1) = 0"
    using atoi [of s1] by auto
  have rng: "snd (strconv_Atoi s2) = Some ErrRange \<longrightarrow>
      fst (strconv_Atoi s2) = (if strings_HasPrefix s2 ''-'' then - (2 ^ 63) else 2 ^ 63 - 1)"
    using atoi [of s2] by auto
  have nonneg: "\<not> strings_HasPrefix s3 ''-'' \<longrightarrow> 0 \<le> fst (strconv_Atoi s3)"
    using atoi [of s3] by auto
  have dig: "list_all is_digit ds \<and> ds \<noteq> [] \<longrightarrow>
      strconv_Atoi ds =
        (if decimal ds < 2 ^ 63 then (int (decimal ds), None) else (2 ^ 63 - 1, Some ErrRange)) \<and>
      strconv_Atoi (CHR ''-'' # ds) =
        (if decimal ds \<le> 2 ^ 63 then (- int (decimal ds), None)
         else (- (2 ^ 63), Some ErrRange))"
    using Atoi_digits [of ds] Atoi_minus_digits [of ds] by blast
  from p c lo hi syn rng nonneg dig show ?thesis by blast
qed

text \<open>The theorem at the example documents and at five value strings.\<close>

theorem record_value_from_Atoi_witness:
  "(2::nat) < length (pn_Records example_proto) \<and>
   pValue (proto_escape example_proto ! 2) = 0 \<and>
   (1::nat) < length (selected_records example_icmp) \<and>
   Value (icmp_escape example_icmp ! 1) = 3 \<and>
   snd (strconv_Atoi ''abc'') = Some ErrSyntax \<and> fst (strconv_Atoi ''abc'') = 0 \<and>
   snd (strconv_Atoi ''99999999999999999999x'') = Some ErrRange \<and>
   fst (strconv_Atoi ''99999999999999999999x'') = 2 ^ 63 - 1 \<and>
   \<not> strings_HasPrefix ''3'' ''-'' \<and> 0 \<le> fst (strconv_Atoi ''3'') \<and>
   list_all is_digit ''138'' \<and> strconv_Atoi ''138'' = (138, None) \<and>
   strconv_Atoi ''-138'' = (- 138, None)"
proof -
  have h1: "(2::nat) < length (pn_Records example_proto)" by (simp add: example_proto_def)
  have h2: "(1::nat) < length (selected_records example_icmp)" by (simp add: example_selected)
  have h3: "snd (strconv_Atoi ''abc'') = Some ErrSyntax" by (simp add: Atoi_abc)
  have h4: "snd (strconv_Atoi ''99999999999999999999x'') = Some ErrRange"
    by (simp add: Atoi_overflow_then_letters)
  have h5: "\<not> strings_HasPrefix ''3'' ''-''" by (simp add: strings_HasPrefix_def)
  have h6: "list_all is_digit ''138'' \<and> ''138'' \<noteq> []" by (simp add: is_digit_def)
  have d: "decimal ''138'' = 138" by (simp add: decimal_def digit_val_def)
  have v: "prec_Value (pn_Records example_proto ! 2) = ''abc''" by (simp add: example_proto_def)
  have r: "selected_records example_icmp ! 1 =
      \<lparr>rec_Value = ''3'', rec_Descr = ''Destination Unreachable''\<rparr>"
    "selected_records example_icmp ! Suc 0 =
      \<lparr>rec_Value = ''3'', rec_Descr = ''Destination Unreachable''\<rparr>"
    by (simp_all add: example_selected)
  have np: "\<not> icmp_placeholder ''Destination Unreachable''" by code_simp
  from record_value_from_Atoi
    [of 2 example_proto 1 example_icmp "''3''" "''abc''" "''99999999999999999999x''" "''3''" "''138''"]
    h1 h2 h3 h4 h5 h6
  show ?thesis
    by (simp add: d v r np Atoi_abc Atoi_3 strings_HasPrefix_def)
qed

text \<open>
  The claim as stated fails: the value string \<open>-5\<close> gives the value -5, and the
  numeral \<open>99999999999999999999\<close>, on which parsing fails with a range error, gives
  9223372036854775807.
\<close>

theorem record_value_counterexample:
  "map pValue (proto_escape example_proto) ! 0 = - 5 \<and>
   snd (strconv_Atoi ''99999999999999999999'') = Some ErrRange \<and>
   map pValue (proto_escape example_proto) ! 1 = 9223372036854775807"
  by (simp add: proto_escape_map example_proto_def proto_canon_def Atoi_minus_5 Atoi_overflow)

section \<open>The canonical identifier of an ICMP record\<close>




section \<open>The sub-registry that the ICMP canonicalizer selects\<close>

text \<open>
  Claim C3 says that the ICMP canonicalizer selects, by a linear scan with first-match
  semantics, the first sub-registry whose title contains \<open>type\<close> in any mixture of
  letter cases. The code tests for the two spellings \<open>Type\<close> and \<open>type\<close> only. The claim
  holds in this form: the canonicalizer selects the first sub-registry whose title
  contains \<open>Type\<close> or \<open>type\<close>, and its result is the list of the canonical records of
  that sub-registry.
\<close>

theorem icmp_registry_first_Type_or_type:
  assumes "k < length (Registries icp)"
    and "type_title (reg_Title (Registries icp ! k))"
    and "\<forall>j<k. \<not> type_title (reg_Title (Registries icp ! j))"
  shows "find_type_registry 0 (Registries icp) = int k \<and>
         selected_records icp = reg_Records (Registries icp ! k) \<and>
         icmp_escape icp = map icmp_canon (reg_Records (Registries icp ! k))"
proof -
  from find_type_registry_first [OF assms, of 0]
  have "find_type_registry 0 (Registries icp) = int k" by simp
  then show ?thesis by (simp add: icmp_escape_map selected_records_def)
qed

text \<open>
  The theorem at the example document, whose second and third sub-registry both match:
  the second is selected.
\<close>

theorem icmp_registry_first_Type_or_type_witness:
  "(1::nat) < length (Registries example_icmp) \<and>
   type_title (reg_Title (Registries example_icmp ! 1)) \<and>
   \<not> type_title (reg_Title (Registries example_icmp ! 0)) \<and>
   type_title (reg_Title (Registries example_icmp ! 2)) \<and>
   find_type_registry 0 (Registries example_icmp) = 1 \<and>
   selected_records example_icmp = reg_Records (Registries example_icmp ! 1)"
proof -
  have c: "\<not> strings_Contains ''Code Fields'' ''Type''" "\<not> strings_Contains ''Code Fields'' ''type''"
    "strings_Contains ''ICMP Type Numbers'' ''Type''" "strings_Contains ''Subtype'' ''type''"
    by code_simp+
  have h1: "(1::nat) < length (Registries example_icmp)" by (simp add: example_icmp_def)
  have h2: "type_title (reg_Title (Registries example_icmp ! 1))"
    using c by (simp add: example_icmp_def type_title_def)
  have h3: "\<forall>j<1. \<not> type_title (reg_Title (Registries example_icmp ! j))"
    using c by (simp add: example_icmp_def type_title_def)
  have h4: "type_title (reg_Title (Registries example_icmp ! 2))"
    using c by (simp add: example_icmp_def type_title_def)
  have h5: "\<not> type_title (reg_Title (Registries example_icmp ! 0))"
    using c by (simp add: example_icmp_def type_title_def)
  from icmp_registry_first_Type_or_type [OF h1 h2 h3] h1 h2 h4 h5 show ?thesis by simp
qed

text \<open>
  The claim as stated fails at the title \<open>ICMP TYPE Numbers\<close>, which contains \<open>type\<close>
  when letter case is ignored: the scan finds no sub-registry and the result is empty.
\<close>

theorem icmp_registry_upper_case_title_unmatched:
  "strings_Contains (map lower_byte ''ICMP TYPE Numbers'') ''type'' \<and>
   find_type_registry 0
     [\<lparr>reg_Title = ''ICMP TYPE Numbers'',
       reg_Records = [\<lparr>rec_Value = ''3'', rec_Descr = ''Destination Unreachable''\<rparr>]\<rparr>] = - 1 \<and>
   icmp_escape
     \<lparr>Title = ''t'', Updated = ''u'',
      Registries =
        [\<lparr>reg_Title = ''ICMP TYPE Numbers'',
          reg_Records = [\<lparr>rec_Value = ''3'', rec_Descr = ''Destination Unreachable''\<rparr>]\<rparr>]\<rparr> = []"
proof -
  have "strings_Contains (map lower_byte ''ICMP TYPE Numbers'') ''type''" by code_simp
  moreover have "\<not> strings_Contains ''ICMP TYPE Numbers'' ''Type''"
    "\<not> strings_Contains ''ICMP TYPE Numbers'' ''type''" by code_simp+
  ultimately show ?thesis by (simp add: icmp_escape_def)
qed

section \<open>Placeholder records of the ICMP registry\<close>

text \<open>
  Claim C4 says that an ICMP record whose description contains \<open>Reserved\<close>,
  \<open>Unassigned\<close>, \<open>Deprecated\<close> or any case variant of \<open>Experiment\<close> is excluded from the
  emitted constant block and from the emitted lookup table. The code tests for the
  spellings \<open>Experiment\<close> and \<open>experiment\<close> only. The claim holds in this form: a record
  of the selected sub-registry whose description contains \<open>Reserved\<close>, \<open>Unassigned\<close>,
  \<open>Deprecated\<close>, \<open>Experiment\<close> or \<open>experiment\<close> adds nothing to the constant block and
  nothing to the lookup table, and what \<open>parseICMPv4Parameters\<close> writes is what it
  would write for the selected sub-registry without these records.
\<close>

theorem icmp_placeholders_not_emitted:
  assumes "decode r = Inr icp"
    and "i < length (selected_records icp)"
    and "icmp_placeholder (rec_Descr (selected_records icp ! i))"
  shows "icmp_const (icmp_escape icp ! i) = [] \<and> icmp_entry f (icmp_escape icp ! i) = [] \<and>
         parseICMPv4Parameters f decode w r =
           (w @ [header_comment (Title icp) (Updated icp)] @
            icmp_const_block (map icmp_canon
              (filter (\<lambda>pr. \<not> icmp_placeholder (rec_Descr pr)) (selected_records icp))) @
            [header_comment (Title icp) (Updated icp)] @
            icmp_table f (map icmp_canon
              (filter (\<lambda>pr. \<not> icmp_placeholder (rec_Descr pr)) (selected_records icp))),
            None)"
proof -
  from assms(2,3) have "icmp_escape icp ! i = zero_canonICMPv4ParamRecord"
    by (simp add: icmp_escape_nth icmp_canon_def)
  then have "icmp_const (icmp_escape icp ! i) = []" "icmp_entry f (icmp_escape icp ! i) = []"
    by (simp_all add: icmp_const_def icmp_entry_def zero_canonICMPv4ParamRecord_def)
  moreover have "parseICMPv4Parameters f decode w r =
      (w @ [header_comment (Title icp) (Updated icp)] @
       icmp_const_block (map icmp_canon (selected_records icp)) @
       [header_comment (Title icp) (Updated icp)] @
       icmp_table f (map icmp_canon (selected_records icp)), None)"
    using assms(1) by (simp add: parseICMPv4Parameters_def icmp_escape_map Let_def)
  ultimately show ?thesis
    using icmp_const_block_filter [of "selected_records icp"]
      icmp_table_filter [of f "selected_records icp"] by simp
qed

text \<open>
  The theorem at the example document: the record \<open>Unassigned\<close> is skipped, the record
  \<open>Destination Unreachable\<close> is the only one written.
\<close>

theorem icmp_placeholders_not_emitted_witness:
  "(\<lambda>r. Inr example_icmp :: error + icmpv4Parameters) [] = Inr example_icmp \<and>
   (0::nat) < length (selected_records example_icmp) \<and>
   icmp_placeholder (rec_Descr (selected_records example_icmp ! 0)) \<and>
   icmp_const (icmp_escape example_icmp ! 0) = [] \<and>
   icmp_entry id (icmp_escape example_icmp ! 0) = [] \<and>
   parseICMPv4Parameters id (\<lambda>r. Inr example_icmp) [] [] =
     ([Fprintf ''// %s, Updated: %s\<newline>'' [S ''ICMP Parameters'', S ''2013-04-19''],
       Fprintf ''const (\<newline>'' [],
       Fprintf ''ICMPType%s ICMPType = %d'' [S ''DestinationUnreachable'', D 3],
       Fprintf ''// %s\<newline>'' [S ''Destination Unreachable''],
       Fprintf '')\<newline>\<newline>'' [],
       Fprintf ''// %s, Updated: %s\<newline>'' [S ''ICMP Parameters'', S ''2013-04-19''],
       Fprintf ''var icmpTypes = map[ICMPType]string{\<newline>'' [],
       Fprintf ''%d: %q,\<newline>'' [D 3, S ''destination unreachable''],
       Fprintf ''}\<newline>'' []], None)"
proof -
  have h1: "(\<lambda>r. Inr example_icmp :: error + icmpv4Parameters) [] = Inr example_icmp" by simp
  have h2: "(0::nat) < length (selected_records example_icmp)" by (simp add: example_selected)
  have h3: "icmp_placeholder (rec_Descr (selected_records example_icmp ! 0))"
    by (simp add: example_selected placeholder_Unassigned)
  have np: "\<not> icmp_placeholder ''Destination Unreachable''" by code_simp
  have flt: "filter (\<lambda>pr. \<not> icmp_placeholder (rec_Descr pr)) (selected_records example_icmp) =
      [\<lparr>rec_Value = ''3'', rec_Descr = ''Destination Unreachable''\<rparr>]"
    by (simp add: example_selected placeholder_Unassigned np)
  have hdr: "header_comment (Title example_icmp) (Updated example_icmp) =
      Fprintf ''// %s, Updated: %s\<newline>'' [S ''ICMP Parameters'', S ''2013-04-19'']"
    by (simp add: header_comment_def example_icmp_def)
  note t = icmp_placeholders_not_emitted [OF h1 h2 h3, of id "[]"]
  from t have a: "icmp_const (icmp_escape example_icmp ! 0) = []"
    "icmp_entry id (icmp_escape example_icmp ! 0) = []" by simp_all
  from t have b: "parseICMPv4Parameters id (\<lambda>r. Inr example_icmp) [] [] =
     ([Fprintf ''// %s, Updated: %s\<newline>'' [S ''ICMP Parameters'', S ''2013-04-19''],
       Fprintf ''const (\<newline>'' [],
       Fprintf ''ICMPType%s ICMPType = %d'' [S ''DestinationUnreachable'', D 3],
       Fprintf ''// %s\<newline>'' [S ''Destination Unreachable''],
       Fprintf '')\<newline>\<newline>'' [],
       Fprintf ''// %s, Updated: %s\<newline>'' [S ''ICMP Parameters'', S ''2013-04-19''],
       Fprintf ''var icmpTypes = map[ICMPType]string{\<newline>'' [],
       Fprintf ''%d: %q,\<newline>'' [D 3, S ''destination unreachable''],
       Fprintf ''}\<newline>'' []], None)"
    by (simp add: flt hdr canon_Destination_Unreachable icmp_const_block_def icmp_table_def
          icmp_const_def icmp_entry_def ToLower_Destination_Unreachable)
  from h1 h2 h3 a b show ?thesis by blast
qed

text \<open>
  The claim as stated fails at the description \<open>EXPERIMENT\<close>, a case variant of
  \<open>Experiment\<close>: the record is written to the constant block and to the lookup table.
\<close>

theorem icmp_upper_case_experiment_emitted:
  "map lower_byte ''EXPERIMENT'' = map lower_byte ''Experiment'' \<and>
   icmp_const_block (icmp_escape
     \<lparr>Title = ''t'', Updated = ''u'',
      Registries = [\<lparr>reg_Title = ''Type'',
                     reg_Records = [\<lparr>rec_Value = ''3'', rec_Descr = ''EXPERIMENT''\<rparr>]\<rparr>]\<rparr>) =
     [Fprintf ''const (\<newline>'' [],
      Fprintf ''ICMPType%s ICMPType = %d'' [S ''EXPERIMENT'', D 3],
      Fprintf ''// %s\<newline>'' [S ''EXPERIMENT''],
      Fprintf '')\<newline>\<newline>'' []] \<and>
   icmp_table id (icmp_escape
     \<lparr>Title = ''t'', Updated = ''u'',
      Registries = [\<lparr>reg_Title = ''Type'',
                     reg_Records = [\<lparr>rec_Value = ''3'', rec_Descr = ''EXPERIMENT''\<rparr>]\<rparr>]\<rparr>) =
     [Fprintf ''var icmpTypes = map[ICMPType]string{\<newline>'' [],
      Fprintf ''%d: %q,\<newline>'' [D 3, S ''experiment''],
      Fprintf ''}\<newline>'' []]"
proof -
  have l: "map lower_byte ''EXPERIMENT'' = map lower_byte ''Experiment''"
    by code_simp
  have np: "\<not> icmp_placeholder ''EXPERIMENT''" by code_simp
  have o: "icmp_orig_descr ''EXPERIMENT'' = ''EXPERIMENT''" by code_simp
  have d: "Replace icmp_sr ''EXPERIMENT'' = ''EXPERIMENT''" by code_simp
  have t: "strings_Contains ''Type'' ''Type''" by code_simp
  have lo: "strings_ToLower id ''EXPERIMENT'' = ''experiment''"
    by code_simp
  have e: "icmp_escape
     \<lparr>Title = ''t'', Updated = ''u'',
      Registries = [\<lparr>reg_Title = ''Type'',
                     reg_Records = [\<lparr>rec_Value = ''3'', rec_Descr = ''EXPERIMENT''\<rparr>]\<rparr>]\<rparr> =
     [\<lparr>OrigDescr = ''EXPERIMENT'', Descr = ''EXPERIMENT'', Value = 3\<rparr>]"
    using np o d t by (simp add: icmp_escape_map selected_records_def icmp_canon_def Atoi_3)
  show ?thesis
    unfolding e using l lo
    by (simp add: icmp_const_block_def icmp_table_def icmp_const_def icmp_entry_def)
qed

section \<open>The synthetic record of the protocol registry\<close>

text \<open>
  Claim C5: for every successfully decoded protocol registry, whatever its records, the
  emitted protocol constant block lists as its first entry the synthetic record with
  canonical name \<open>IP\<close>, description \<open>IPv4 encapsulation, pseudo protocol number\<close> and
  value 0, before all the records derived from the decoded set.
\<close>

theorem protocol_block_starts_with_IP:
  assumes "decode r = Inr pn"
  shows "parseProtocolNumbers decode w r =
     (w @ [header_comment (pn_Title pn) (pn_Updated pn),
           Fprintf ''const (\<newline>'' [],
           Fprintf ''ianaProtocol%s = %d'' [S ''IP'', D 0],
           Fprintf ''// %s\<newline>'' [S ''IPv4 encapsulation, pseudo protocol number'']] @
      concat (map proto_const (proto_escape pn)) @
      [Fprintf '')\<newline>'' []], None)"
  using assms
  by (simp add: parseProtocolNumbers_def Let_def proto_const_block_def proto_const_def
        synthetic_IP_def)

text \<open>The theorem at a registry with the one record \<open>TCP\<close>.\<close>

theorem protocol_block_starts_with_IP_witness:
  "(\<lambda>r. Inr example_tcp :: error + protocolNumbers) [] = Inr example_tcp \<and>
   parseProtocolNumbers (\<lambda>r. Inr example_tcp) [] [] =
     ([Fprintf ''// %s, Updated: %s\<newline>'' [S ''Protocol Numbers'', S ''2013-02-17''],
       Fprintf ''const (\<newline>'' [],
       Fprintf ''ianaProtocol%s = %d'' [S ''IP'', D 0],
       Fprintf ''// %s\<newline>'' [S ''IPv4 encapsulation, pseudo protocol number''],
       Fprintf ''ianaProtocol%s = %d'' [S ''TCP'', D 6],
       Fprintf ''// %s\<newline>'' [S ''Transmission Control''],
       Fprintf '')\<newline>'' []], None)"
proof -
  have h: "(\<lambda>r. Inr example_tcp :: error + protocolNumbers) [] = Inr example_tcp" by simp
  have hdr: "header_comment (pn_Title example_tcp) (pn_Updated example_tcp) =
      Fprintf ''// %s, Updated: %s\<newline>'' [S ''Protocol Numbers'', S ''2013-02-17'']"
    by (simp add: header_comment_def example_tcp_def)
  from protocol_block_starts_with_IP [OF h, of "[]"] h show ?thesis
    by (simp add: hdr example_tcp_escape proto_const_def)
qed

section \<open>The lookup table of the ICMP registry\<close>

text \<open>
  Claim C6: for every ICMP record emitted as a constant, that is with a non-empty
  canonical identifier, the emitted lookup table has the entry from the numeric value
  of the record to its lowercased original description, and the table has entries for
  exactly the emitted records, in the same order; in particular the record with value
  \<open>3\<close> and description \<open>Destination Unreachable\<close> yields the canonical identifier
  \<open>DestinationUnreachable\<close>, the constant value 3 and the lookup entry from 3 to
  \<open>destination unreachable\<close>.
\<close>

theorem icmp_table_matches_constants:
  assumes "decode r = Inr icp"
  shows "parseICMPv4Parameters f decode w r =
     (w @ [header_comment (Title icp) (Updated icp), Fprintf ''const (\<newline>'' []] @
      concat (map (\<lambda>pr. [Fprintf ''ICMPType%s ICMPType = %d'' [S (Descr pr), D (Value pr)],
                         Fprintf ''// %s\<newline>'' [S (OrigDescr pr)]])
                (filter (\<lambda>pr. Descr pr \<noteq> []) (icmp_escape icp))) @
      [Fprintf '')\<newline>\<newline>'' [], header_comment (Title icp) (Updated icp),
       Fprintf ''var icmpTypes = map[ICMPType]string{\<newline>'' []] @
      map (\<lambda>pr. Fprintf ''%d: %q,\<newline>''
                   [D (Value pr), S (strings_ToLower f (OrigDescr pr))])
        (filter (\<lambda>pr. Descr pr \<noteq> []) (icmp_escape icp)) @
      [Fprintf ''}\<newline>'' []], None) \<and>
     (j < length (selected_records icp) \<and>
      selected_records icp ! j = \<lparr>rec_Value = ''3'', rec_Descr = ''Destination Unreachable''\<rparr> \<longrightarrow>
        icmp_escape icp ! j =
          \<lparr>OrigDescr = ''Destination Unreachable'', Descr = ''DestinationUnreachable'',
           Value = 3\<rparr> \<and>
        icmp_const (icmp_escape icp ! j) =
          [Fprintf ''ICMPType%s ICMPType = %d'' [S ''DestinationUnreachable'', D 3],
           Fprintf ''// %s\<newline>'' [S ''Destination Unreachable'']] \<and>
        icmp_entry f (icmp_escape icp ! j) =
          [Fprintf ''%d: %q,\<newline>'' [D 3, S ''destination unreachable'']])"
proof -
  have c: "concat (map icmp_const prs) =
      concat (map (\<lambda>pr. [Fprintf ''ICMPType%s ICMPType = %d'' [S (Descr pr), D (Value pr)],
                         Fprintf ''// %s\<newline>'' [S (OrigDescr pr)]])
                (filter (\<lambda>pr. Descr pr \<noteq> []) prs))" for prs
    by (induction prs) (simp_all add: icmp_const_def)
  have t: "concat (map (icmp_entry f) prs) =
      map (\<lambda>pr. Fprintf ''%d: %q,\<newline>''
                   [D (Value pr), S (strings_ToLower f (OrigDescr pr))])
        (filter (\<lambda>pr. Descr pr \<noteq> []) prs)" for prs
    by (induction prs) (simp_all add: icmp_entry_def)
  have out: "parseICMPv4Parameters f decode w r =
     (w @ [header_comment (Title icp) (Updated icp), Fprintf ''const (\<newline>'' []] @
      concat (map (\<lambda>pr. [Fprintf ''ICMPType%s ICMPType = %d'' [S (Descr pr), D (Value pr)],
                         Fprintf ''// %s\<newline>'' [S (OrigDescr pr)]])
                (filter (\<lambda>pr. Descr pr \<noteq> []) (icmp_escape icp))) @
      [Fprintf '')\<newline>\<newline>'' [], header_comment (Title icp) (Updated icp),
       Fprintf ''var icmpTypes = map[ICMPType]string{\<newline>'' []] @
      map (\<lambda>pr. Fprintf ''%d: %q,\<newline>''
                   [D (Value pr), S (strings_ToLower f (OrigDescr pr))])
        (filter (\<lambda>pr. Descr pr \<noteq> []) (icmp_escape icp)) @
      [Fprintf ''}\<newline>'' []], None)"
    using assms
    by (simp add: parseICMPv4Parameters_def Let_def icmp_const_block_def icmp_table_def c t)
  have ex: "j < length (selected_records icp) \<and>
      selected_records icp ! j = \<lparr>rec_Value = ''3'', rec_Descr = ''Destination Unreachable''\<rparr> \<longrightarrow>
        icmp_escape icp ! j =
          \<lparr>OrigDescr = ''Destination Unreachable'', Descr = ''DestinationUnreachable'',
           Value = 3\<rparr> \<and>
        icmp_const (icmp_escape icp ! j) =
          [Fprintf ''ICMPType%s ICMPType = %d'' [S ''DestinationUnreachable'', D 3],
           Fprintf ''// %s\<newline>'' [S ''Destination Unreachable'']] \<and>
        icmp_entry f (icmp_escape icp ! j) =
          [Fprintf ''%d: %q,\<newline>'' [D 3, S ''destination unreachable'']]"
    by (simp add: icmp_escape_nth canon_Destination_Unreachable icmp_const_def icmp_entry_def
          ToLower_Destination_Unreachable)
  from out ex show ?thesis by (rule conjI)
qed

text \<open>The theorem at the document whose selected sub-registry holds that one record.\<close>

theorem icmp_table_matches_constants_witness:
  "(\<lambda>r. Inr example_dest :: error + icmpv4Parameters) [] = Inr example_dest \<and>
   (0::nat) < length (selected_records example_dest) \<and>
   selected_records example_dest ! 0 =
     \<lparr>rec_Value = ''3'', rec_Descr = ''Destination Unreachable''\<rparr> \<and>
   icmp_escape example_dest ! 0 =
     \<lparr>OrigDescr = ''Destination Unreachable'', Descr = ''DestinationUnreachable'', Value = 3\<rparr> \<and>
   icmp_entry id (icmp_escape example_dest ! 0) =
     [Fprintf ''%d: %q,\<newline>'' [D 3, S ''destination unreachable'']] \<and>
   parseICMPv4Parameters id (\<lambda>r. Inr example_dest) [] [] =
     ([Fprintf ''// %s, Updated: %s\<newline>'' [S ''ICMP Parameters'', S ''2013-04-19''],
       Fprintf ''const (\<newline>'' [],
       Fprintf ''ICMPType%s ICMPType = %d'' [S ''DestinationUnreachable'', D 3],
       Fprintf ''// %s\<newline>'' [S ''Destination Unreachable''],
       Fprintf '')\<newline>\<newline>'' [],
       Fprintf ''// %s, Updated: %s\<newline>'' [S ''ICMP Parameters'', S ''2013-04-19''],
       Fprintf ''var icmpTypes = map[ICMPType]string{\<newline>'' [],
       Fprintf ''%d: %q,\<newline>'' [D 3, S ''destination unreachable''],
       Fprintf ''}\<newline>'' []], None)"
proof -
  have h: "(\<lambda>r. Inr example_dest :: error + icmpv4Parameters) [] = Inr example_dest" by simp
  have hdr: "header_comment (Title example_dest) (Updated example_dest) =
      Fprintf ''// %s, Updated: %s\<newline>'' [S ''ICMP Parameters'', S ''2013-04-19'']"
    by (simp add: header_comment_def example_dest_def)
  have h2: "(0::nat) < length (selected_records example_dest) \<and>
      selected_records example_dest ! 0 =
        \<lparr>rec_Value = ''3'', rec_Descr = ''Destination Unreachable''\<rparr>"
    by (simp add: example_dest_selected)
  from icmp_table_matches_constants [OF h, where f = id and w = "[]" and j = 0] h h2 show ?thesis
    by (simp add: hdr example_dest_escape ToLower_Destination_Unreachable)
qed

section \<open>Records with an empty identifier\<close>

text \<open>
  Claim C7: for both registries a canonical record is emitted (as a constant, and for
  ICMP as an entry of the lookup table) only if its canonical identifier or name is not
  empty. The records with an empty identifier, among them the placeholders that the
  ICMP loop skips, stay in the result of the canonicalizer as entries with zero value:
  the result has one entry for each record. They are dropped when the blocks are
  written.
\<close>

theorem empty_identifier_dropped_at_emission:
  "length (icmp_escape icp) = length (selected_records icp) \<and>
   length (proto_escape pn) = length (pn_Records pn) \<and>
   (i < length (selected_records icp) \<and>
    icmp_placeholder (rec_Descr (selected_records icp ! i)) \<longrightarrow>
      icmp_escape icp ! i = zero_canonICMPv4ParamRecord \<and>
      Descr (icmp_escape icp ! i) = []) \<and>
   (icmp_const pr = []) = (Descr pr = []) \<and>
   (icmp_entry f pr = []) = (Descr pr = []) \<and>
   (proto_const ppr = []) = (pName ppr = []) \<and>
   icmp_const_block prs = icmp_const_block (filter (\<lambda>pr. Descr pr \<noteq> []) prs) \<and>
   icmp_table f prs = icmp_table f (filter (\<lambda>pr. Descr pr \<noteq> []) prs) \<and>
   proto_const_block pprs = proto_const_block (filter (\<lambda>pr. pName pr \<noteq> []) pprs)"
proof -
  have a: "length (icmp_escape icp) = length (selected_records icp)"
    by (simp add: icmp_escape_map)
  have b: "length (proto_escape pn) = length (pn_Records pn)"
    by (simp add: proto_escape_map)
  have c: "i < length (selected_records icp) \<and>
      icmp_placeholder (rec_Descr (selected_records icp ! i)) \<longrightarrow>
      icmp_escape icp ! i = zero_canonICMPv4ParamRecord \<and> Descr (icmp_escape icp ! i) = []"
    by (simp add: icmp_escape_nth icmp_canon_def zero_canonICMPv4ParamRecord_def)
  have d: "(icmp_const pr = []) = (Descr pr = [])" by (simp add: icmp_const_def)
  have e: "(icmp_entry f pr = []) = (Descr pr = [])" by (simp add: icmp_entry_def)
  have g: "(proto_const ppr = []) = (pName ppr = [])" by (simp add: proto_const_def)
  have h: "icmp_const_block prs = icmp_const_block (filter (\<lambda>pr. Descr pr \<noteq> []) prs)"
    unfolding icmp_const_block_def
    using concat_map_filter_nonempty [of "\<lambda>pr. Descr pr \<noteq> []" icmp_const prs]
    by (simp add: icmp_const_def)
  have k: "icmp_table f prs = icmp_table f (filter (\<lambda>pr. Descr pr \<noteq> []) prs)"
    unfolding icmp_table_def
    using concat_map_filter_nonempty [of "\<lambda>pr. Descr pr \<noteq> []" "icmp_entry f" prs]
    by (simp add: icmp_entry_def)
  have l: "proto_const_block pprs = proto_const_block (filter (\<lambda>pr. pName pr \<noteq> []) pprs)"
    unfolding proto_const_block_def
    using concat_map_filter_nonempty [of "\<lambda>pr. pName pr \<noteq> []" proto_const pprs]
    by (simp add: proto_const_def)
  from a b c d e g h k l show ?thesis by blast
qed

text \<open>The theorem at the example document, whose first selected record is a placeholder.\<close>

theorem empty_identifier_dropped_at_emission_witness:
  "(0::nat) < length (selected_records example_icmp) \<and>
   icmp_placeholder (rec_Descr (selected_records example_icmp ! 0)) \<and>
   length (icmp_escape example_icmp) = 2 \<and>
   icmp_escape example_icmp ! 0 = zero_canonICMPv4ParamRecord \<and>
   icmp_const_block (icmp_escape example_icmp) =
     icmp_const_block
       [\<lparr>OrigDescr = ''Destination Unreachable'', Descr = ''DestinationUnreachable'',
         Value = 3\<rparr>]"
proof -
  have h: "(0::nat) < length (selected_records example_icmp) \<and>
      icmp_placeholder (rec_Descr (selected_records example_icmp ! 0))"
    by (simp add: example_selected placeholder_Unassigned)
  from empty_identifier_dropped_at_emission
    [where icp = example_icmp and i = 0 and prs = "icmp_escape example_icmp"] h
  show ?thesis
    by (simp add: example_selected example_escape zero_canonICMPv4ParamRecord_def)
qed

section \<open>A run that fails\<close>

text \<open>
  Claim C8: if a fetch error, a non-success HTTP status, an XML decode error or a
  source-formatting error occurs at any stage of the run, the process ends with a
  non-zero exit status and writes nothing to standard output; what was accumulated is
  discarded and only standard error receives the report of the error.
\<close>

theorem main_fail_fast:
  assumes "fetch_fails e icmp_url \<or> decode_fails (decode_icmp e) e icmp_url \<or>
           fetch_fails e proto_url \<or> decode_fails (decode_proto e) e proto_url \<or>
           format_fails e"
  shows "exit_status (main e) = 1 \<and> stdout (main e) = [] \<and>
         (\<exists>report. stderr (main e) = [report])"
proof (cases "main_loop e (registries e) main_header")
  case (Inl errw)
  from main_loop_Inl_single [OF Inl] obtain report where "errw = [report]" ..
  with Inl show ?thesis by (simp add: main_def)
next
  case (Inr bb)
  with assms main_loop_fails [of e] have "format_fails e" by auto
  with Inr have "isl (format_Source e bb)" by (simp add: format_fails_def)
  then obtain err where "format_Source e bb = Inl err" by (cases "format_Source e bb") simp_all
  with Inr show ?thesis by (simp add: main_def)
qed

text \<open>The theorem in the world where the second fetch is answered with status 404.\<close>

theorem main_fail_fast_witness:
  "fetch_fails example_env proto_url \<and>
   main example_env =
     \<lparr>exit_status = 1, stdout = [],
      stderr = [Fprintf ''got HTTP status code %v for %v\<newline>'' [D 404, S proto_url]]\<rparr>"
proof -
  have ne: "proto_url \<noteq> icmp_url" by (simp add: proto_url_def icmp_url_def)
  have h: "fetch_fails example_env proto_url"
    using ne by (simp add: fetch_fails_def example_env_def StatusOK_def)
  then have "fetch_fails example_env icmp_url \<or>
      decode_fails (decode_icmp example_env) example_env icmp_url \<or>
      fetch_fails example_env proto_url \<or>
      decode_fails (decode_proto example_env) example_env proto_url \<or>
      format_fails example_env" by simp
  from main_fail_fast [OF this] have
    "exit_status (main example_env) = 1" "stdout (main example_env) = []" by simp_all
  moreover have "stderr (main example_env) =
      [Fprintf ''got HTTP status code %v for %v\<newline>'' [D 404, S proto_url]]"
    unfolding main_def registries_def main_loop_step parseICMPv4Parameters_error
    using ne by (simp add: example_env_def StatusOK_def)
  ultimately have "main example_env =
     \<lparr>exit_status = 1, stdout = [],
      stderr = [Fprintf ''got HTTP status code %v for %v\<newline>'' [D 404, S proto_url]]\<rparr>"
    by (cases "main example_env") simp
  with h show ?thesis by simp
qed

section \<open>An ICMP document without a type sub-registry\<close>

text \<open>
  Claim C9: if a successfully decoded ICMP document has no sub-registry whose title
  contains \<open>type\<close> or \<open>Type\<close>, the canonicalizer returns an empty record set and no
  error, and the parse step writes the registry header with zero constants and an
  empty lookup table and returns no error.
\<close>

theorem icmp_no_type_registry_empty_output:
  assumes "decode r = Inr icp"
    and "\<forall>reg \<in> set (Registries icp).
           \<not> strings_Contains (reg_Title reg) ''type'' \<and>
           \<not> strings_Contains (reg_Title reg) ''Type''"
  shows "icmp_escape icp = [] \<and>
         parseICMPv4Parameters f decode w r =
           (w @ [header_comment (Title icp) (Updated icp),
                 Fprintf ''const (\<newline>'' [], Fprintf '')\<newline>\<newline>'' [],
                 header_comment (Title icp) (Updated icp),
                 Fprintf ''var icmpTypes = map[ICMPType]string{\<newline>'' [],
                 Fprintf ''}\<newline>'' []], None)"
proof -
  from assms(2) have "\<forall>reg \<in> set (Registries icp). \<not> type_title (reg_Title reg)"
    by (simp add: type_title_def)
  then have "find_type_registry 0 (Registries icp) = - 1"
    by (rule find_type_registry_none)
  then have e: "icmp_escape icp = []" by (simp add: icmp_escape_def)
  with assms(1) show ?thesis
    by (simp add: parseICMPv4Parameters_def Let_def icmp_const_block_def icmp_table_def)
qed

text \<open>The theorem at a document whose only sub-registry is titled \<open>Code Fields\<close>.\<close>

theorem icmp_no_type_registry_empty_output_witness:
  "(\<lambda>r. Inr example_codes :: error + icmpv4Parameters) [] = Inr example_codes \<and>
   map reg_Title (Registries example_codes) = [''Code Fields''] \<and>
   \<not> strings_Contains ''Code Fields'' ''type'' \<and>
   \<not> strings_Contains ''Code Fields'' ''Type'' \<and>
   icmp_escape example_codes = [] \<and>
   parseICMPv4Parameters id (\<lambda>r. Inr example_codes) [] [] =
     ([Fprintf ''// %s, Updated: %s\<newline>'' [S ''ICMP Parameters'', S ''2013-04-19''],
       Fprintf ''const (\<newline>'' [], Fprintf '')\<newline>\<newline>'' [],
       Fprintf ''// %s, Updated: %s\<newline>'' [S ''ICMP Parameters'', S ''2013-04-19''],
       Fprintf ''var icmpTypes = map[ICMPType]string{\<newline>'' [],
       Fprintf ''}\<newline>'' []], None)"
proof -
  have h1: "(\<lambda>r. Inr example_codes :: error + icmpv4Parameters) [] = Inr example_codes" by simp
  have c: "\<not> strings_Contains ''Code Fields'' ''Type''" "\<not> strings_Contains ''Code Fields'' ''type''"
    by code_simp+
  have h2: "\<forall>reg \<in> set (Registries example_codes).
       \<not> strings_Contains (reg_Title reg) ''type'' \<and>
       \<not> strings_Contains (reg_Title reg) ''Type''"
    using c by (simp add: example_codes_def)
  have hdr: "header_comment (Title example_codes) (Updated example_codes) =
      Fprintf ''// %s, Updated: %s\<newline>'' [S ''ICMP Parameters'', S ''2013-04-19'']"
    by (simp add: header_comment_def example_codes_def)
  have h3: "map reg_Title (Registries example_codes) = [''Code Fields'']"
    by (simp add: example_codes_def)
  from icmp_no_type_registry_empty_output [OF h1 h2, of id "[]"] h1 h3 c show ?thesis
    by (simp add: hdr del: strings_Contains.simps)
qed

section \<open>The name exceptions of the protocol canonicalizer\<close>

text \<open>
  Claim C10: in the protocol canonicalizer the two literal exceptions are matched
  against the name as decoded, untrimmed, while the generic replacement works on the
  trimmed name. For every protocol record whose name equals \<open>manet\<close> or
  \<open>ISIS over IPv4\<close> only after trimming, the exception does not apply and the
  canonical name is what the generic replacement rules make of the trimmed name
  (\<open>manet\<close>, not \<open>MANET\<close>; \<open>ISISoverIPv4\<close>, not \<open>ISIS\<close>). A name that equals an
  exception as decoded gets the exceptional name.
\<close>

theorem protocol_exception_on_raw_name:
  assumes "i < length (pn_Records pn)"
    and "strings_TrimSpace (prec_Name (pn_Records pn ! i)) = ''manet'' \<or>
         strings_TrimSpace (prec_Name (pn_Records pn ! i)) = ''ISIS over IPv4''"
    and "prec_Name (pn_Records pn ! i) \<noteq> ''manet''"
    and "prec_Name (pn_Records pn ! i) \<noteq> ''ISIS over IPv4''"
  shows "pName (proto_escape pn ! i) =
           Replace proto_sr (strings_TrimSpace (prec_Name (pn_Records pn ! i))) \<and>
         (pName (proto_escape pn ! i) = ''manet'' \<or>
          pName (proto_escape pn ! i) = ''ISISoverIPv4'') \<and>
         pName (proto_escape pn ! i) \<noteq> ''MANET'' \<and> pName (proto_escape pn ! i) \<noteq> ''ISIS'' \<and>
         (k < length (pn_Records pn) \<and> prec_Name (pn_Records pn ! k) = ''manet'' \<longrightarrow>
            pName (proto_escape pn ! k) = ''MANET'') \<and>
         (l < length (pn_Records pn) \<and> prec_Name (pn_Records pn ! l) = ''ISIS over IPv4'' \<longrightarrow>
            pName (proto_escape pn ! l) = ''ISIS'')"
proof -
  have m: "Replace proto_sr ''manet'' = ''manet''" by code_simp
  have s: "Replace proto_sr ''ISIS over IPv4'' = ''ISISoverIPv4''" by code_simp
  from assms(1,3,4) have "pName (proto_escape pn ! i) =
      Replace proto_sr (strings_TrimSpace (prec_Name (pn_Records pn ! i)))"
    by (simp add: proto_escape_nth proto_canon_def proto_name_def)
  with assms(2) m s have generic: "pName (proto_escape pn ! i) =
           Replace proto_sr (strings_TrimSpace (prec_Name (pn_Records pn ! i))) \<and>
         (pName (proto_escape pn ! i) = ''manet'' \<or>
          pName (proto_escape pn ! i) = ''ISISoverIPv4'') \<and>
         pName (proto_escape pn ! i) \<noteq> ''MANET'' \<and> pName (proto_escape pn ! i) \<noteq> ''ISIS''"
    by auto
  have raw_manet: "k < length (pn_Records pn) \<and> prec_Name (pn_Records pn ! k) = ''manet'' \<longrightarrow>
      pName (proto_escape pn ! k) = ''MANET''"
    by (simp add: proto_escape_nth proto_canon_def proto_name_def)
  have raw_isis:
    "l < length (pn_Records pn) \<and> prec_Name (pn_Records pn ! l) = ''ISIS over IPv4'' \<longrightarrow>
      pName (proto_escape pn ! l) = ''ISIS''"
    by (simp add: proto_escape_nth proto_canon_def proto_name_def)
  from generic raw_manet raw_isis show ?thesis by blast
qed

text \<open>
  The theorem at the example registry: the name \<open>manet\<close> between two spaces, the name
  \<open>manet\<close> and the name \<open>ISIS over IPv4\<close>.
\<close>

theorem protocol_exception_on_raw_name_witness:
  "(3::nat) < length (pn_Records example_proto) \<and>
   prec_Name (pn_Records example_proto ! 3) = '' manet '' \<and>
   strings_TrimSpace (prec_Name (pn_Records example_proto ! 3)) = ''manet'' \<and>
   pName (proto_escape example_proto ! 3) = ''manet'' \<and>
   (4::nat) < length (pn_Records example_proto) \<and>
   prec_Name (pn_Records example_proto ! 4) = ''manet'' \<and>
   pName (proto_escape example_proto ! 4) = ''MANET'' \<and>
   (5::nat) < length (pn_Records example_proto) \<and>
   prec_Name (pn_Records example_proto ! 5) = ''ISIS over IPv4'' \<and>
   pName (proto_escape example_proto ! 5) = ''ISIS''"
proof -
  have n: "prec_Name (pn_Records example_proto ! 3) = '' manet ''"
    by (simp add: example_proto_def)
  have t: "strings_TrimSpace '' manet '' = ''manet''" by code_simp
  have m: "Replace proto_sr ''manet'' = ''manet''" by code_simp
  have h1: "(3::nat) < length (pn_Records example_proto)" by (simp add: example_proto_def)
  have h2: "strings_TrimSpace (prec_Name (pn_Records example_proto ! 3)) = ''manet'' \<or>
      strings_TrimSpace (prec_Name (pn_Records example_proto ! 3)) = ''ISIS over IPv4''"
    by (simp add: n t)
  have h3: "prec_Name (pn_Records example_proto ! 3) \<noteq> ''manet''" by (simp add: n)
  have h4: "prec_Name (pn_Records example_proto ! 3) \<noteq> ''ISIS over IPv4''" by (simp add: n)
  have h5: "(4::nat) < length (pn_Records example_proto) \<and>
      prec_Name (pn_Records example_proto ! 4) = ''manet''"
    by (simp add: example_proto_def)
  have h6: "(5::nat) < length (pn_Records example_proto) \<and>
      prec_Name (pn_Records example_proto ! 5) = ''ISIS over IPv4''"
    by (simp add: example_proto_def)
  note t0 = protocol_exception_on_raw_name [OF h1 h2 h3 h4, where k = 4 and l = 5]
  from t0 have a: "pName (proto_escape example_proto ! 3) =
       Replace proto_sr (strings_TrimSpace (prec_Name (pn_Records example_proto ! 3)))"
    by blast
  from t0 h5 have b: "pName (proto_escape example_proto ! 4) = ''MANET''" by blast
  from t0 h6 have c: "pName (proto_escape example_proto ! 5) = ''ISIS''" by blast
  from a have a': "pName (proto_escape example_proto ! 3) = ''manet''"
    by (simp only: n t m)
  from h1 n t a' h5 b h6 c show ?thesis by (simp del: Replace.simps)
qed

end
